theory Spec2Isabelle
  imports Complex_Main "HOL-Library.List_Lexorder" "HOL-Library.Char_ord"
begin

section \<open>Python values, dictionaries and exceptions\<close>

text \<open>
  An exception is an instance of a subclass of Python's \<open>Exception\<close>, the instances an
  \<open>except Exception\<close> clause catches: its class name and the message \<open>str(e)\<close> gives.
\<close>

datatype exn = PyException (exn_class: string) (exn_message: string)

text \<open>
  The values a result or parameter dictionary holds. A \<open>datetime\<close> is its number of
  microseconds since the epoch (\<open>PTime\<close>); a Python float is approximated by a real
  (\<open>PFloat\<close>), and no theorem below depends on float arithmetic.
\<close>

datatype pvalue =
    PNone
  | PBool bool
  | PInt int
  | PFloat real
  | PStr string
  | PTime int
  | PList "pvalue list"
  | PDict "(string \<times> pvalue) list"

type_synonym pydict = "(string \<times> pvalue) list"

text \<open>Truth value of a Python object, as \<open>not x\<close> and \<open>if x:\<close> test it.\<close>

fun truthy :: "pvalue \<Rightarrow> bool" where
  "truthy PNone = False"
| "truthy (PBool b) = b"
| "truthy (PInt i) = (i \<noteq> 0)"
| "truthy (PFloat x) = (x \<noteq> 0)"
| "truthy (PStr s) = (s \<noteq> [])"
| "truthy (PTime t) = True"
| "truthy (PList xs) = (xs \<noteq> [])"
| "truthy (PDict d) = (d \<noteq> [])"

text \<open>Lists and dictionaries cannot be hashed: using one as a dictionary key raises TypeError.\<close>

fun hashable :: "pvalue \<Rightarrow> bool" where
  "hashable (PList xs) = False"
| "hashable (PDict d) = False"
| "hashable v = True"

text \<open>The name \<open>type(v).__name__\<close> of a value's class, and a name in single quotes.\<close>

fun type_name :: "pvalue \<Rightarrow> string" where
  "type_name PNone = ''NoneType''"
| "type_name (PBool b) = ''bool''"
| "type_name (PInt i) = ''int''"
| "type_name (PFloat x) = ''float''"
| "type_name (PStr s) = ''str''"
| "type_name (PTime t) = ''datetime.datetime''"
| "type_name (PList xs) = ''list''"
| "type_name (PDict d) = ''dict''"

definition quoted :: "string \<Rightarrow> string" where
  "quoted s = CHR 0x27 # s @ [CHR 0x27]"

text \<open>
  A Python dictionary is an association list in insertion order with distinct keys.
  \<open>d[k] = v\<close> overwrites in place or appends; \<open>del d[k]\<close> removes the entry;
  \<open>d.get(k)\<close> is \<open>None\<close> for an absent key.
\<close>

fun dict_set :: "'k \<Rightarrow> 'v \<Rightarrow> ('k \<times> 'v) list \<Rightarrow> ('k \<times> 'v) list" where
  "dict_set k v [] = [(k, v)]"
| "dict_set k v (kv # d) = (if fst kv = k then (k, v) # d else kv # dict_set k v d)"

definition dict_del :: "'k \<Rightarrow> ('k \<times> 'v) list \<Rightarrow> ('k \<times> 'v) list" where
  "dict_del k d = filter (\<lambda>kv. fst kv \<noteq> k) d"

definition dict_keys :: "('k \<times> 'v) list \<Rightarrow> 'k list" where
  "dict_keys d = map fst d"

definition dict_has :: "('k \<times> 'v) list \<Rightarrow> 'k \<Rightarrow> bool" where
  "dict_has d k = (map_of d k \<noteq> None)"

definition dict_get :: "pydict \<Rightarrow> string \<Rightarrow> pvalue" where
  "dict_get d k = (case map_of d k of None \<Rightarrow> PNone | Some v \<Rightarrow> v)"

text \<open>
  \<open>min(d.keys())\<close> over string keys: Python orders strings lexicographically by code
  point, which is the order of \<open>List_Lexorder\<close> over \<open>Char_ord\<close>.
\<close>

fun min_key :: "string list \<Rightarrow> string option" where
  "min_key [] = None"
| "min_key (k # ks) = Some (fold min ks k)"

text \<open>\<open>xs[-n:]\<close> for a positive \<open>n\<close>: the last \<open>n\<close> elements.\<close>

definition last_n :: "nat \<Rightarrow> 'a list \<Rightarrow> 'a list" where
  "last_n n xs = drop (length xs - n) xs"

section \<open>The control plane: \<open>src/game/sandbox/controller.py\<close>\<close>

datatype ControlCommand = START | PAUSE | RESUME | STOP | RESET | SAVE | LOAD

fun command_value :: "ControlCommand \<Rightarrow> string" where
  "command_value START = ''start''"
| "command_value PAUSE = ''pause''"
| "command_value RESUME = ''resume''"
| "command_value STOP = ''stop''"
| "command_value RESET = ''reset''"
| "command_value SAVE = ''save''"
| "command_value LOAD = ''load''"

text \<open>
  \<open>SimulationState\<close> is declared with the same members in \<open>controller.py\<close> and in
  \<open>simulation.py\<close>. The controller is run against a simulation whose \<open>state\<close> holds the
  controller's enum, as the \<open>MockSimulation\<close> of \<open>tests/test_critical_fixes.py\<close> does.
\<close>

datatype SimulationState = INITIALIZING | RUNNING | PAUSED | STOPPED | ERROR

text \<open>
  The simulation object: the attributes \<open>update\<close> and the controller read and write,
  and \<open>world\<close> for everything else it owns (subsystems, agents, statistics, event log).
\<close>

record 'w SandboxSimulation =
  simulation_id :: string
  state :: SimulationState
  current_time :: real
  time_scale :: real
  world :: 'w

record log_entry =
  timestamp :: int
  command :: string
  params :: "pydict option"
  result :: pydict

text \<open>
  The clock readings one call of \<open>execute_command\<close> can take: \<open>save_id_reading\<close> is
  \<open>str(datetime.now().timestamp())\<close> of \<open>_save_state\<close> (line 122), \<open>handler_reading\<close> the
  \<open>datetime.now()\<close> of lines 108, 132 and 152, \<open>log_reading\<close> that of \<open>_log_command\<close>.
\<close>

record clock_readings =
  save_id_reading :: string
  handler_reading :: int
  log_reading :: int

text \<open>
  What the controller calls and \<open>controller.py\<close> does not define. \<open>get_state\<close> and
  \<open>set_state\<close> are methods of the simulation object handed to the constructor.
  \<open>_apply_simulation_params\<close>, \<open>_pause_simulation\<close>, \<open>_resume_simulation\<close>,
  \<open>_stop_simulation\<close> and \<open>_reset_simulation\<close> are called on the controller and defined
  nowhere in the repository: they are parameters that act on the simulation and either
  raise or return. In \<open>mock_collaborators\<close> below they raise AttributeError, which is
  what the attribute lookup does on the class as it stands.
\<close>

record ('w, 'b) collaborators =
  get_state :: "'w SandboxSimulation \<Rightarrow> exn + 'b"
  set_state :: "'w SandboxSimulation \<Rightarrow> 'b \<Rightarrow> 'w SandboxSimulation \<times> (exn + unit)"
  apply_simulation_params ::
    "'w SandboxSimulation \<Rightarrow> pydict \<Rightarrow> 'w SandboxSimulation \<times> (exn + unit)"
  pause_simulation :: "'w SandboxSimulation \<Rightarrow> 'w SandboxSimulation \<times> (exn + pydict)"
  resume_simulation :: "'w SandboxSimulation \<Rightarrow> 'w SandboxSimulation \<times> (exn + pydict)"
  stop_simulation :: "'w SandboxSimulation \<Rightarrow> 'w SandboxSimulation \<times> (exn + pydict)"
  reset_simulation :: "'w SandboxSimulation \<Rightarrow> 'w SandboxSimulation \<times> (exn + pydict)"

text \<open>
  The controller. \<open>active_commands\<close> is never read or written after \<open>__init__\<close> and is left
  out, and so is the lock: \<open>execute_command\<close> takes it on entry, releases it on exit and
  never takes it twice.
\<close>

record ('w, 'b) SandboxController =
  simulation :: "'w SandboxSimulation"
  command_history :: "log_entry list"
  save_states :: "(string \<times> 'b) list"
  is_processing :: bool
  last_update :: int
  error_count :: nat

definition MAX_HISTORY_ENTRIES :: nat where
  "MAX_HISTORY_ENTRIES = 1000"

definition MAX_SAVE_STATES :: nat where
  "MAX_SAVE_STATES = 10"

definition init_controller :: "'w SandboxSimulation \<Rightarrow> int \<Rightarrow> ('w, 'b) SandboxController" where
  "init_controller sim now =
     \<lparr>simulation = sim, command_history = [], save_states = [], is_processing = False,
      last_update = now, error_count = 0\<rparr>"

definition trim_history :: "('w, 'b) SandboxController \<Rightarrow> ('w, 'b) SandboxController" where
  "trim_history c =
     (if length (command_history c) > MAX_HISTORY_ENTRIES
      then c\<lparr>command_history := last_n MAX_HISTORY_ENTRIES (command_history c)\<rparr>
      else c)"

text \<open>
  \<open>min\<close> of an empty sequence raises ValueError; the guard \<open>len > MAX_SAVE_STATES\<close> leaves
  at least one key, so that branch is never taken.
\<close>

definition trim_save_states :: "('w, 'b) SandboxController \<Rightarrow> ('w, 'b) SandboxController" where
  "trim_save_states c =
     (if length (save_states c) > MAX_SAVE_STATES
      then (case min_key (dict_keys (save_states c)) of
              None \<Rightarrow> c
            | Some oldest_save \<Rightarrow> c\<lparr>save_states := dict_del oldest_save (save_states c)\<rparr>)
      else c)"

definition start_simulation ::
  "('w, 'b) collaborators \<Rightarrow> ('w, 'b) SandboxController \<Rightarrow> pydict option \<Rightarrow> clock_readings
   \<Rightarrow> ('w, 'b) SandboxController \<times> (exn + pydict)" where
  "start_simulation H c ps rd =
     (if state (simulation c) \<noteq> INITIALIZING
      then (c, Inr [(''success'', PBool False), (''reason'', PStr ''Simulation already started'')])
      else
        (case (case ps of
                 None \<Rightarrow> (simulation c, Inr ())
               | Some d \<Rightarrow> (if d = [] then (simulation c, Inr ())
                            else apply_simulation_params H (simulation c) d)) of
           (sim1, Inl e) \<Rightarrow> (c\<lparr>simulation := sim1\<lparr>state := ERROR\<rparr>\<rparr>, Inl e)
         | (sim1, Inr u) \<Rightarrow>
             (c\<lparr>simulation := sim1\<lparr>state := RUNNING\<rparr>, last_update := handler_reading rd\<rparr>,
              Inr [(''success'', PBool True),
                   (''simulation_id'', PStr (simulation_id sim1)),
                   (''start_time'', PTime (handler_reading rd))])))"

definition save_state ::
  "('w, 'b) collaborators \<Rightarrow> ('w, 'b) SandboxController \<Rightarrow> pydict option \<Rightarrow> clock_readings
   \<Rightarrow> ('w, 'b) SandboxController \<times> (exn + pydict)" where
  "save_state H c ps rd =
     (let save_id = save_id_reading rd in
      case get_state H (simulation c) of
        Inl e \<Rightarrow> (c, Inr [(''success'', PBool False), (''reason'', PStr (exn_message e))])
      | Inr state_data \<Rightarrow>
          (trim_save_states (c\<lparr>save_states := dict_set save_id state_data (save_states c)\<rparr>),
           Inr [(''success'', PBool True),
                (''save_id'', PStr save_id),
                (''timestamp'', PTime (handler_reading rd))]))"

text \<open>
  \<open>params.get\<close> on \<open>None\<close> raises AttributeError and \<open>save_id in self.save_states\<close> on an
  unhashable value raises TypeError, both before the \<open>try\<close> of \<open>_load_state\<close>. The keys of
  \<open>save_states\<close> are strings, so a hashable value of another type is not among them.
\<close>

definition load_state ::
  "('w, 'b) collaborators \<Rightarrow> ('w, 'b) SandboxController \<Rightarrow> pydict option \<Rightarrow> clock_readings
   \<Rightarrow> ('w, 'b) SandboxController \<times> (exn + pydict)" where
  "load_state H c ps rd =
     (case ps of
        None \<Rightarrow>
          (c, Inl (PyException ''AttributeError''
                 (quoted ''NoneType'' @ '' object has no attribute '' @ quoted ''get'')))
      | Some d \<Rightarrow>
          (let save_id = dict_get d ''save_id'';
               not_found = [(''success'', PBool False), (''reason'', PStr ''Save state not found'')]
           in if truthy save_id
              then (if hashable save_id
                    then (case save_id of
                            PStr k \<Rightarrow>
                              (case map_of (save_states c) k of
                                 None \<Rightarrow> (c, Inr not_found)
                               | Some state_data \<Rightarrow>
                                   (case set_state H (simulation c) state_data of
                                      (sim1, Inl e) \<Rightarrow>
                                        (c\<lparr>simulation := sim1\<rparr>,
                                         Inr [(''success'', PBool False),
                                              (''reason'', PStr (exn_message e))])
                                    | (sim1, Inr u) \<Rightarrow>
                                        (c\<lparr>simulation := sim1\<rparr>,
                                         Inr [(''success'', PBool True),
                                              (''save_id'', save_id),
                                              (''timestamp'', PTime (handler_reading rd))])))
                          | _ \<Rightarrow> (c, Inr not_found))
                    else (c, Inl (PyException ''TypeError''
                                    (''unhashable type: '' @ quoted (type_name save_id)))))
              else (c, Inr not_found)))"

definition log_command ::
  "('w, 'b) SandboxController \<Rightarrow> ControlCommand \<Rightarrow> pydict option \<Rightarrow> pydict \<Rightarrow> clock_readings
   \<Rightarrow> ('w, 'b) SandboxController" where
  "log_command c cmd ps res rd =
     c\<lparr>command_history := command_history c @
        [\<lparr>timestamp = log_reading rd, command = command_value cmd, params = ps, result = res\<rparr>]\<rparr>"

definition on_simulation ::
  "('w SandboxSimulation \<Rightarrow> 'w SandboxSimulation \<times> (exn + pydict))
   \<Rightarrow> ('w, 'b) SandboxController \<Rightarrow> ('w, 'b) SandboxController \<times> (exn + pydict)" where
  "on_simulation f c = (case f (simulation c) of (sim1, r) \<Rightarrow> (c\<lparr>simulation := sim1\<rparr>, r))"

text \<open>The \<open>if\<close>/\<open>elif\<close> chain of \<open>execute_command\<close>: the handler's result, or what it raised.\<close>

fun dispatch_command ::
  "('w, 'b) collaborators \<Rightarrow> ('w, 'b) SandboxController \<Rightarrow> ControlCommand \<Rightarrow> pydict option
   \<Rightarrow> clock_readings \<Rightarrow> ('w, 'b) SandboxController \<times> (exn + pydict)" where
  "dispatch_command H c START ps rd = start_simulation H c ps rd"
| "dispatch_command H c PAUSE ps rd = on_simulation (pause_simulation H) c"
| "dispatch_command H c RESUME ps rd = on_simulation (resume_simulation H) c"
| "dispatch_command H c STOP ps rd = on_simulation (stop_simulation H) c"
| "dispatch_command H c RESET ps rd = on_simulation (reset_simulation H) c"
| "dispatch_command H c SAVE ps rd = save_state H c ps rd"
| "dispatch_command H c LOAD ps rd = load_state H c ps rd"

text \<open>
  \<open>execute_command\<close>: the busy guard, then the \<open>try\<close> (handler, \<open>_log_command\<close>,
  \<open>_trim_history\<close>), the \<open>except Exception\<close> that writes the reason into the initial
  result and counts the error, and the \<open>finally\<close> that clears \<open>is_processing\<close>. The
  function returns at \<open>return result\<close> only, so every outcome below is an \<open>Inr\<close>; the sum
  type keeps the place where an uncaught exception would show.
\<close>

definition execute_command ::
  "('w, 'b) collaborators \<Rightarrow> ('w, 'b) SandboxController \<Rightarrow> ControlCommand \<Rightarrow> pydict option
   \<Rightarrow> clock_readings \<Rightarrow> ('w, 'b) SandboxController \<times> (exn + pydict)" where
  "execute_command H c cmd ps rd =
     (if is_processing c
      then (c, Inr [(''success'', PBool False), (''reason'', PStr ''Controller is busy'')])
      else
        (case dispatch_command H (c\<lparr>is_processing := True\<rparr>) cmd ps rd of
           (c1, Inr res) \<Rightarrow>
             ((trim_history (log_command c1 cmd ps res rd))\<lparr>is_processing := False\<rparr>, Inr res)
         | (c1, Inl e) \<Rightarrow>
             (c1\<lparr>error_count := error_count c1 + 1, is_processing := False\<rparr>,
              Inr (dict_set ''reason'' (PStr (exn_message e))
                     [(''success'', PBool False), (''command'', PStr (command_value cmd))]))))"

text \<open>A sequence of calls, each with its command, its parameters and its clock readings.\<close>

fun run_commands ::
  "('w, 'b) collaborators \<Rightarrow> ('w, 'b) SandboxController
   \<Rightarrow> (ControlCommand \<times> pydict option \<times> clock_readings) list \<Rightarrow> ('w, 'b) SandboxController" where
  "run_commands H c [] = c"
| "run_commands H c ((cmd, ps, rd) # calls) =
     run_commands H (fst (execute_command H c cmd ps rd)) calls"

text \<open>The bounds on the two collections the controller keeps.\<close>

definition bounded :: "('w, 'b) SandboxController \<Rightarrow> bool" where
  "bounded c = (length (command_history c) \<le> MAX_HISTORY_ENTRIES \<and>
                length (save_states c) \<le> MAX_SAVE_STATES)"

text \<open>
  Concrete collaborators. The simulation of \<open>tests/test_critical_fixes.py\<close>: \<open>get_state\<close>
  returns \<open>{"test": "state"}\<close>, \<open>set_state\<close> does nothing. A method the class does not
  define raises AttributeError when it is looked up.
\<close>

definition undefined_method :: "string \<Rightarrow> exn" where
  "undefined_method name =
     PyException ''AttributeError''
       (quoted ''SandboxController'' @ '' object has no attribute '' @ quoted name)"

definition mock_simulation :: "unit SandboxSimulation" where
  "mock_simulation =
     \<lparr>simulation_id = ''test_sim_001'', state = INITIALIZING, current_time = 0,
      time_scale = 1, world = ()\<rparr>"

definition mock_collaborators :: "(unit, pydict) collaborators" where
  "mock_collaborators =
     \<lparr>get_state = (\<lambda>sim. Inr [(''test'', PStr ''state'')]),
      set_state = (\<lambda>sim b. (sim, Inr ())),
      apply_simulation_params = (\<lambda>sim d. (sim, Inl (undefined_method ''_apply_simulation_params''))),
      pause_simulation = (\<lambda>sim. (sim, Inl (undefined_method ''_pause_simulation''))),
      resume_simulation = (\<lambda>sim. (sim, Inl (undefined_method ''_resume_simulation''))),
      stop_simulation = (\<lambda>sim. (sim, Inl (undefined_method ''_stop_simulation''))),
      reset_simulation = (\<lambda>sim. (sim, Inl (undefined_method ''_reset_simulation'')))\<rparr>"

text \<open>
  A simulation object that defines neither \<open>get_state\<close> nor \<open>set_state\<close>, as the class
  \<open>SandboxSimulation\<close> of \<open>simulation.py\<close>, which \<open>game.py\<close> hands to the controller.
\<close>

definition stateless_collaborators :: "(unit, pydict) collaborators" where
  "stateless_collaborators =
     mock_collaborators
       \<lparr>get_state := (\<lambda>sim. Inl (PyException ''AttributeError''
            (quoted ''SandboxSimulation'' @ '' object has no attribute '' @ quoted ''get_state''))),
        set_state := (\<lambda>sim b. (sim, Inl (PyException ''AttributeError''
            (quoted ''SandboxSimulation'' @ '' object has no attribute '' @ quoted ''set_state''))))\<rparr>"

text \<open>A simulation whose snapshot is its whole \<open>world\<close>, restored by \<open>set_state\<close>.\<close>

definition snapshot_collaborators :: "(pydict, pydict) collaborators" where
  "snapshot_collaborators =
     \<lparr>get_state = (\<lambda>sim. Inr (world sim)),
      set_state = (\<lambda>sim b. (sim\<lparr>world := b\<rparr>, Inr ())),
      apply_simulation_params = (\<lambda>sim d. (sim, Inr ())),
      pause_simulation = (\<lambda>sim. (sim, Inl (undefined_method ''_pause_simulation''))),
      resume_simulation = (\<lambda>sim. (sim, Inl (undefined_method ''_resume_simulation''))),
      stop_simulation = (\<lambda>sim. (sim, Inl (undefined_method ''_stop_simulation''))),
      reset_simulation = (\<lambda>sim. (sim, Inl (undefined_method ''_reset_simulation'')))\<rparr>"

definition at_clock :: "string \<Rightarrow> clock_readings" where
  "at_clock s = \<lparr>save_id_reading = s, handler_reading = 0, log_reading = 0\<rparr>"

text \<open>
  Ten snapshots taken one second apart, at the clock readings 999999990.0 to 999999999.0
  (9 September 2001, 01:46:30 to 01:46:39 UTC); \<open>str\<close> of a whole float that size is its
  digits followed by \<open>.0\<close>.
\<close>

definition rollover_ids :: "string list" where
  "rollover_ids =
     [''999999990.0'', ''999999991.0'', ''999999992.0'', ''999999993.0'', ''999999994.0'',
      ''999999995.0'', ''999999996.0'', ''999999997.0'', ''999999998.0'', ''999999999.0'']"

definition save_at :: "string \<Rightarrow> ControlCommand \<times> pydict option \<times> clock_readings" where
  "save_at s = (SAVE, None, at_clock s)"

definition ten_snapshots :: "(unit, pydict) SandboxController" where
  "ten_snapshots = run_commands mock_collaborators (init_controller mock_simulation 0) (map save_at rollover_ids)"

definition world_simulation :: "pydict SandboxSimulation" where
  "world_simulation =
     \<lparr>simulation_id = ''sim_w'', state = INITIALIZING, current_time = 0, time_scale = 1,
      world = [(''weather'', PStr ''clear'')]\<rparr>"

section \<open>The tick scheduler: \<open>SandboxSimulation.update\<close> in \<open>src/game/sandbox/simulation.py\<close>\<close>

text \<open>
  Python floats are carried as the real numbers they denote (infinities and NaN are not
  covered), and their arithmetic is rounded: the three operations \<open>update\<close> and
  \<open>physics.update\<close> use are parameters, and nothing is assumed of them.
\<close>

record float_ops =
  float_mul :: "real \<Rightarrow> real \<Rightarrow> real"
  float_add :: "real \<Rightarrow> real \<Rightarrow> real"
  float_div :: "real \<Rightarrow> real \<Rightarrow> real"

text \<open>
  What the simulation owns besides its identifier, state and clock (the \<open>world\<close> field of
  \<open>SandboxSimulation\<close>): the keys of \<open>self.agents\<close> in insertion order, the two counters
  of \<open>self.stats\<close> that \<open>_resolve_combat\<close> and \<open>_update_social\<close> write, and \<open>parts\<close> for
  the rest (environment, physics, the agents themselves, the managers, the event log).
\<close>

record 'x tick_world =
  agent_ids :: "string list"
  combat_events :: nat
  social_events :: nat
  parts :: 'x

type_synonym ('x, 'a) outcome = "'x tick_world \<times> (exn + 'a)"

type_synonym 'x step = "'x tick_world \<Rightarrow> real \<Rightarrow> ('x, pvalue) outcome"

text \<open>
  Modelled from the spec: the methods \<open>update\<close> and the steps it calls rely on and the
  source files do not define. They are \<open>_pre_update\<close>, \<open>environment.update\<close>
  (\<open>environment.py\<close> has \<open>update_environment\<close> only), \<open>_update_factions\<close>,
  \<open>_post_update\<close>, \<open>_collect_events\<close> and \<open>_update_metrics\<close>; the helpers of
  \<open>physics.update\<close> (\<open>_update_forces\<close>, \<open>_resolve_collisions\<close>,
  \<open>_update_performance_metrics\<close>, \<open>_get_position_updates\<close>, and \<open>_integrate\<close> and
  \<open>_detect_collisions\<close>, whose bodies are numpy arithmetic or call helpers that are
  missing too); the helpers of \<open>_update_agents\<close> (\<open>_get_agent_context\<close>, the agent's
  \<open>update\<close>, \<open>_process_agent_decisions\<close>), of \<open>_resolve_combat\<close>
  (\<open>_get_active_combat\<close>, the manager's \<open>resolve_combat\<close> with the three subscripts of
  its arguments, \<open>_apply_combat_results\<close>) and of \<open>_update_social\<close>
  (\<open>_get_pending_interactions\<close>, the manager's \<open>process_interaction\<close> with its four
  subscripts, \<open>_apply_social_results\<close>). The specification gives the clock and the
  lifecycle state to the scheduler (the clock is owned exclusively by the TickScheduler,
  which advances it at the end of a successful tick) and to a subsystem its own
  state and the events it returns (\<open>update(deltaTime) -> {events, metrics}\<close>): each
  missing method is a parameter that takes the world, leaves it as it has changed it, and
  returns a value or raises. A returned value that the caller cannot iterate or subscript
  is the raise of that TypeError.
\<close>

record 'x subsystems =
  pre_update :: "'x step"
  environment_update :: "'x step"
  update_forces :: "'x tick_world \<Rightarrow> ('x, pvalue) outcome"
  integrate :: "'x tick_world \<Rightarrow> real \<Rightarrow> ('x, pvalue) outcome"
  detect_collisions :: "'x tick_world \<Rightarrow> ('x, pvalue list) outcome"
  resolve_collisions :: "'x tick_world \<Rightarrow> pvalue list \<Rightarrow> ('x, pvalue) outcome"
  update_performance_metrics :: "'x tick_world \<Rightarrow> ('x, pvalue) outcome"
  performance_metrics :: "'x tick_world \<Rightarrow> pvalue"
  get_position_updates :: "'x tick_world \<Rightarrow> ('x, pvalue) outcome"
  get_agent_context :: "'x tick_world \<Rightarrow> string \<Rightarrow> ('x, pvalue) outcome"
  agent_update :: "'x tick_world \<Rightarrow> string \<Rightarrow> real \<Rightarrow> pvalue \<Rightarrow> ('x, pvalue) outcome"
  process_agent_decisions :: "'x tick_world \<Rightarrow> string \<Rightarrow> pvalue \<Rightarrow> ('x, pvalue) outcome"
  get_active_combat :: "'x tick_world \<Rightarrow> ('x, pvalue list) outcome"
  resolve_engagement :: "'x tick_world \<Rightarrow> pvalue \<Rightarrow> ('x, pvalue) outcome"
  apply_combat_results :: "'x tick_world \<Rightarrow> pvalue \<Rightarrow> ('x, pvalue) outcome"
  get_pending_interactions :: "'x tick_world \<Rightarrow> ('x, pvalue list) outcome"
  process_interaction :: "'x tick_world \<Rightarrow> pvalue \<Rightarrow> ('x, pvalue) outcome"
  apply_social_results :: "'x tick_world \<Rightarrow> pvalue \<Rightarrow> ('x, pvalue) outcome"
  update_factions :: "'x step"
  post_update :: "'x step"
  collect_events :: "'x tick_world \<Rightarrow> pvalue list \<Rightarrow> ('x, pvalue list) outcome"
  update_metrics :: "'x tick_world \<Rightarrow> pydict \<Rightarrow> ('x, pydict) outcome"

text \<open>One statement after another: what follows runs only when what precedes returned.\<close>

fun and_then :: "'w \<times> (exn + 'a) \<Rightarrow> ('w \<Rightarrow> 'a \<Rightarrow> 'w \<times> (exn + 'b)) \<Rightarrow> 'w \<times> (exn + 'b)" where
  "and_then (w, Inl e) f = (w, Inl e)"
| "and_then (w, Inr a) f = f w a"

text \<open>
  \<open>PhysicsSystem.update\<close> (\<open>src/game/world/physics.py\<close>, lines 69 to 96):
  \<open>max_substeps\<close> rounds of forces, integration, collision detection and resolution,
  the collisions of all rounds collected; then the performance metrics and the position
  updates. \<open>updates['performance']\<close> is the object \<open>self.performance_metrics\<close> itself,
  read here as it stands when \<open>update\<close> returns. The wall-clock time the method measures
  goes to \<open>_update_performance_metrics\<close> only.
\<close>

definition max_substeps :: nat where
  "max_substeps = 8"

fun physics_substeps ::
  "'x subsystems \<Rightarrow> nat \<Rightarrow> real \<Rightarrow> 'x tick_world \<Rightarrow> ('x, pvalue list) outcome" where
  "physics_substeps S 0 substep_time w = (w, Inr [])"
| "physics_substeps S (Suc n) substep_time w =
     (case update_forces S w of
        (w1, Inl e) \<Rightarrow> (w1, Inl e)
      | (w1, Inr u1) \<Rightarrow>
     (case integrate S w1 substep_time of
        (w2, Inl e) \<Rightarrow> (w2, Inl e)
      | (w2, Inr u2) \<Rightarrow>
     (case detect_collisions S w2 of
        (w3, Inl e) \<Rightarrow> (w3, Inl e)
      | (w3, Inr collisions) \<Rightarrow>
     (case resolve_collisions S w3 collisions of
        (w4, Inl e) \<Rightarrow> (w4, Inl e)
      | (w4, Inr u4) \<Rightarrow>
     (case physics_substeps S n substep_time w4 of
        (w5, Inl e) \<Rightarrow> (w5, Inl e)
      | (w5, Inr rest) \<Rightarrow> (w5, Inr (collisions @ rest)))))))"

definition physics_update :: "float_ops \<Rightarrow> 'x subsystems \<Rightarrow> 'x step" where
  "physics_update F S w delta_time =
     (let substep_time = float_div F delta_time (real max_substeps) in
      and_then (physics_substeps S max_substeps substep_time w) (\<lambda>w1 collisions.
      and_then (update_performance_metrics S w1) (\<lambda>w2 u.
      and_then (get_position_updates S w2) (\<lambda>w3 position_updates.
        (w3, Inr (PDict [(''collisions'', PList collisions),
                         (''position_updates'', position_updates),
                         (''performance'', performance_metrics S w3)]))))))"

text \<open>
  \<open>_update_agents\<close> (lines 134 to 151): for every agent, its context, its update and the
  processing of its decisions. The loop runs over \<open>self.agents.items()\<close>; when the body
  has changed the number of agents, fetching the next item raises RuntimeError.
\<close>

fun update_agents_loop ::
  "'x subsystems \<Rightarrow> nat \<Rightarrow> string list \<Rightarrow> real \<Rightarrow> 'x tick_world \<Rightarrow> ('x, pvalue list) outcome" where
  "update_agents_loop S n [] delta_time w = (w, Inr [])"
| "update_agents_loop S n (aid # aids) delta_time w =
     (case get_agent_context S w aid of
        (w1, Inl e) \<Rightarrow> (w1, Inl e)
      | (w1, Inr context) \<Rightarrow>
     (case agent_update S w1 aid delta_time context of
        (w2, Inl e) \<Rightarrow> (w2, Inl e)
      | (w2, Inr agent_upd) \<Rightarrow>
     (case process_agent_decisions S w2 aid agent_upd of
        (w3, Inl e) \<Rightarrow> (w3, Inl e)
      | (w3, Inr u3) \<Rightarrow>
     (if length (agent_ids w3) \<noteq> n
      then (w3, Inl (PyException ''RuntimeError'' ''dictionary changed size during iteration''))
      else
     (case update_agents_loop S n aids delta_time w3 of
        (w4, Inl e) \<Rightarrow> (w4, Inl e)
      | (w4, Inr rest) \<Rightarrow>
          (w4, Inr (PDict [(''agent_id'', PStr aid), (''update'', agent_upd)] # rest)))))))"

definition update_agents :: "'x subsystems \<Rightarrow> 'x step" where
  "update_agents S w delta_time =
     and_then (update_agents_loop S (length (agent_ids w)) (agent_ids w) delta_time w)
       (\<lambda>w1 updates. (w1, Inr (PList updates)))"

text \<open>
  \<open>_resolve_combat\<close> (lines 153 to 170): every active engagement is resolved and its
  result applied; the number of results is added to \<open>stats.combat_events\<close>.
\<close>

fun resolve_engagements ::
  "'x subsystems \<Rightarrow> pvalue list \<Rightarrow> 'x tick_world \<Rightarrow> ('x, pvalue list) outcome" where
  "resolve_engagements S [] w = (w, Inr [])"
| "resolve_engagements S (engagement # engagements) w =
     (case resolve_engagement S w engagement of
        (w1, Inl e) \<Rightarrow> (w1, Inl e)
      | (w1, Inr res) \<Rightarrow>
     (case apply_combat_results S w1 res of
        (w2, Inl e) \<Rightarrow> (w2, Inl e)
      | (w2, Inr u2) \<Rightarrow>
     (case resolve_engagements S engagements w2 of
        (w3, Inl e) \<Rightarrow> (w3, Inl e)
      | (w3, Inr rest) \<Rightarrow> (w3, Inr (res # rest)))))"

definition resolve_combat :: "'x subsystems \<Rightarrow> 'x step" where
  "resolve_combat S w delta_time =
     and_then (get_active_combat S w) (\<lambda>w1 engagements.
     and_then (resolve_engagements S engagements w1) (\<lambda>w2 combat_evs.
       (w2\<lparr>combat_events := combat_events w2 + length combat_evs\<rparr>, Inr (PList combat_evs))))"

text \<open>
  \<open>_update_social\<close> (lines 172 to 190): every pending interaction is processed and its
  result applied; the number of results is added to \<open>stats.social_events\<close>.
\<close>

fun process_interactions ::
  "'x subsystems \<Rightarrow> pvalue list \<Rightarrow> 'x tick_world \<Rightarrow> ('x, pvalue list) outcome" where
  "process_interactions S [] w = (w, Inr [])"
| "process_interactions S (interaction # interactions) w =
     (case process_interaction S w interaction of
        (w1, Inl e) \<Rightarrow> (w1, Inl e)
      | (w1, Inr res) \<Rightarrow>
     (case apply_social_results S w1 res of
        (w2, Inl e) \<Rightarrow> (w2, Inl e)
      | (w2, Inr u2) \<Rightarrow>
     (case process_interactions S interactions w2 of
        (w3, Inl e) \<Rightarrow> (w3, Inl e)
      | (w3, Inr rest) \<Rightarrow> (w3, Inr (res # rest)))))"

definition update_social :: "'x subsystems \<Rightarrow> 'x step" where
  "update_social S w delta_time =
     and_then (get_pending_interactions S w) (\<lambda>w1 interactions.
     and_then (process_interactions S interactions w1) (\<lambda>w2 social_evs.
       (w2\<lparr>social_events := social_events w2 + length social_evs\<rparr>, Inr (PList social_evs))))"

text \<open>The eight calls of the \<open>try\<close> of \<open>update\<close> that precede \<open>_collect_events\<close>, in order.\<close>

definition tick_steps :: "float_ops \<Rightarrow> 'x subsystems \<Rightarrow> 'x step list" where
  "tick_steps F S =
     [pre_update S, environment_update S, physics_update F S, update_agents S,
      resolve_combat S, update_social S, update_factions S, post_update S]"

text \<open>Statements in sequence: the first one that raises ends the sequence.\<close>

fun run_steps :: "'x step list \<Rightarrow> real \<Rightarrow> 'x tick_world \<Rightarrow> ('x, pvalue list) outcome" where
  "run_steps [] d w = (w, Inr [])"
| "run_steps (f # fs) d w =
     (case f w d of
        (w1, Inl e) \<Rightarrow> (w1, Inl e)
      | (w1, Inr r) \<Rightarrow>
          (case run_steps fs d w1 of
             (w2, Inl e) \<Rightarrow> (w2, Inl e)
           | (w2, Inr rs) \<Rightarrow> (w2, Inr (r # rs))))"

text \<open>\<open>str\<close> of a member of the enum, as the f-string of line 60 prints it.\<close>

fun state_str :: "SimulationState \<Rightarrow> string" where
  "state_str INITIALIZING = ''SimulationState.INITIALIZING''"
| "state_str RUNNING = ''SimulationState.RUNNING''"
| "state_str PAUSED = ''SimulationState.PAUSED''"
| "state_str STOPPED = ''SimulationState.STOPPED''"
| "state_str ERROR = ''SimulationState.ERROR''"

text \<open>
  \<open>update\<close> (lines 57 to 104). The results of the six subsystem steps (all but
  \<open>_pre_update\<close> and \<open>_post_update\<close>) go to \<open>_collect_events\<close>; \<open>updates['time']\<close> is
  read before the \<open>try\<close>; \<open>current_time\<close> is written by the last statement of the
  \<open>try\<close>, and \<open>state\<close> by the \<open>except\<close> clause.
\<close>

definition update ::
  "float_ops \<Rightarrow> 'x subsystems \<Rightarrow> 'x tick_world SandboxSimulation \<Rightarrow> real
   \<Rightarrow> 'x tick_world SandboxSimulation \<times> pydict" where
  "update F S sim delta_time =
     (if state sim \<noteq> RUNNING
      then (sim, [(''success'', PBool False),
                  (''reason'', PStr (''Simulation not running: '' @ state_str (state sim)))])
      else
        (let scaled_delta = float_mul F delta_time (time_scale sim);
             time0 = current_time sim
         in case run_steps (tick_steps F S) scaled_delta (world sim) of
              (w1, Inl e) \<Rightarrow>
                (sim\<lparr>world := w1, state := ERROR\<rparr>,
                 [(''success'', PBool False), (''reason'', PStr (exn_message e))])
            | (w1, Inr rs) \<Rightarrow>
                (case collect_events S w1 (take 6 (drop 1 rs)) of
                   (w2, Inl e) \<Rightarrow>
                     (sim\<lparr>world := w2, state := ERROR\<rparr>,
                      [(''success'', PBool False), (''reason'', PStr (exn_message e))])
                 | (w2, Inr events) \<Rightarrow>
                     (case update_metrics S w2 [] of
                        (w3, Inl e) \<Rightarrow>
                          (sim\<lparr>world := w3, state := ERROR\<rparr>,
                           [(''success'', PBool False), (''reason'', PStr (exn_message e))])
                      | (w3, Inr metrics) \<Rightarrow>
                          (sim\<lparr>world := w3,
                               current_time := float_add F (current_time sim) scaled_delta\<rparr>,
                           [(''success'', PBool True),
                            (''updates'', PDict [(''time'', PFloat time0),
                                                 (''events'', PList events),
                                                 (''metrics'', PDict metrics)])])))))"

text \<open>Successive calls of \<open>update\<close>, one per delta, with the result of each.\<close>

fun update_all ::
  "float_ops \<Rightarrow> 'x subsystems \<Rightarrow> 'x tick_world SandboxSimulation \<Rightarrow> real list
   \<Rightarrow> 'x tick_world SandboxSimulation \<times> pydict list" where
  "update_all F S sim [] = (sim, [])"
| "update_all F S sim (d # ds) =
     (case update F S sim d of
        (sim1, r) \<Rightarrow> (case update_all F S sim1 ds of (sim2, rs) \<Rightarrow> (sim2, r # rs)))"

text \<open>
  Concrete subsystems, with the names of the calls recorded in \<open>parts\<close>: one agent, one
  engagement, no pending interaction. In \<open>physics_fails\<close> the integration of the first
  physics round raises. On the values used below the arithmetic of floats is exact.
\<close>

definition exact_arith :: float_ops where
  "exact_arith = \<lparr>float_mul = (\<lambda>a b. a * b), float_add = (\<lambda>a b. a + b), float_div = (\<lambda>a b. a / b)\<rparr>"

definition note_call :: "string \<Rightarrow> (string list) tick_world \<Rightarrow> (string list) tick_world" where
  "note_call name w = w\<lparr>parts := parts w @ [name]\<rparr>"

definition traced_subsystems :: "(string list) subsystems" where
  "traced_subsystems =
     \<lparr>pre_update = (\<lambda>w d. (note_call ''pre'' w, Inr PNone)),
      environment_update = (\<lambda>w d. (note_call ''environment'' w, Inr (PDict []))),
      update_forces = (\<lambda>w. (w, Inr PNone)),
      integrate = (\<lambda>w d. (w, Inr PNone)),
      detect_collisions = (\<lambda>w. (w, Inr [])),
      resolve_collisions = (\<lambda>w cs. (w, Inr PNone)),
      update_performance_metrics = (\<lambda>w. (w, Inr PNone)),
      performance_metrics = (\<lambda>w. PDict []),
      get_position_updates = (\<lambda>w. (note_call ''physics'' w, Inr (PDict []))),
      get_agent_context = (\<lambda>w aid. (w, Inr PNone)),
      agent_update = (\<lambda>w aid d context. (note_call aid w, Inr (PStr ''idle''))),
      process_agent_decisions = (\<lambda>w aid upd. (w, Inr PNone)),
      get_active_combat = (\<lambda>w. (note_call ''combat'' w, Inr [PStr ''duel''])),
      resolve_engagement = (\<lambda>w engagement. (w, Inr engagement)),
      apply_combat_results = (\<lambda>w res. (w, Inr PNone)),
      get_pending_interactions = (\<lambda>w. (note_call ''social'' w, Inr [])),
      process_interaction = (\<lambda>w interaction. (w, Inr interaction)),
      apply_social_results = (\<lambda>w res. (w, Inr PNone)),
      update_factions = (\<lambda>w d. (note_call ''factions'' w, Inr (PList []))),
      post_update = (\<lambda>w d. (note_call ''post'' w, Inr PNone)),
      collect_events = (\<lambda>w rs. (w, Inr rs)),
      update_metrics = (\<lambda>w m. (w, Inr m))\<rparr>"

definition physics_fails :: "(string list) subsystems" where
  "physics_fails =
     traced_subsystems\<lparr>integrate :=
       (\<lambda>w d. (note_call ''integrate'' w, Inl (PyException ''RuntimeError'' ''physics diverged'')))\<rparr>"

definition running_simulation :: "(string list) tick_world SandboxSimulation" where
  "running_simulation =
     \<lparr>simulation_id = ''sim'', state = RUNNING, current_time = 5, time_scale = 2,
      world = \<lparr>agent_ids = [''agent_1''], combat_events = 0, social_events = 0, parts = []\<rparr>\<rparr>"

section \<open>The connection registry: \<open>src/api/agent_interface.py\<close>\<close>

datatype AgentState =
  AGENT_INITIALIZING | AGENT_ACTIVE | AGENT_INACTIVE | AGENT_DISCONNECTED | AGENT_ERROR

text \<open>
  A descriptor: \<open>agent_data.get('id')\<close>, which is \<open>None\<close> when the key is absent or holds
  \<open>None\<close> and a string otherwise (the keys of \<open>registered_agents\<close> are strings), and the
  other entries of the dictionary.
\<close>

record agent_data =
  agent_id :: "string option"
  attributes :: pydict

text \<open>
  The registry. \<open>lock_held\<close> is the state of \<open>self._lock\<close>, a \<open>threading.Lock\<close>: it is
  not reentrant, and \<open>_cleanup_inactive_connections\<close> calls \<open>_disconnect_agent\<close> while it
  holds it. A weak reference in \<open>active_connections\<close> is opaque.
\<close>

record 'h AgentInterface =
  lock_held :: bool
  registered_agents :: "(string \<times> agent_data) list"
  agent_states :: "(string \<times> AgentState) list"
  active_connections :: "(string \<times> unit) list"
  connection_timestamps :: "(string \<times> int) list"
  event_handlers :: "(string \<times> (string \<times> 'h) list) list"
  last_event_time :: "(string \<times> int) list"

definition MAX_CONNECTIONS :: nat where
  "MAX_CONNECTIONS = 1000"

definition CONNECTION_TIMEOUT :: int where
  "CONNECTION_TIMEOUT = 30"

definition init_interface :: "'h AgentInterface" where
  "init_interface =
     \<lparr>lock_held = False, registered_agents = [], agent_states = [], active_connections = [],
      connection_timestamps = [], event_handlers = [], last_event_time = []\<rparr>"

text \<open>
  \<open>with self._lock:\<close> around a block. Acquiring a lock that is held blocks until it is
  released; the holder is the caller itself, so the call never returns: \<open>None\<close>.
\<close>

definition with_lock ::
  "('h AgentInterface \<Rightarrow> ('h AgentInterface \<times> 'a) option) \<Rightarrow> 'h AgentInterface
   \<Rightarrow> ('h AgentInterface \<times> 'a) option" where
  "with_lock body r =
     (if lock_held r then None
      else (case body (r\<lparr>lock_held := True\<rparr>) of
              None \<Rightarrow> None
            | Some (r1, a) \<Rightarrow> Some (r1\<lparr>lock_held := False\<rparr>, a)))"

definition register_agent ::
  "'h AgentInterface \<Rightarrow> agent_data \<Rightarrow> int \<Rightarrow> ('h AgentInterface \<times> pydict) option" where
  "register_agent r data now =
     with_lock (\<lambda>r1.
       let no_id = [(''success'', PBool False), (''reason'', PStr ''No agent ID provided'')] in
       Some (case agent_id data of
               None \<Rightarrow> (r1, no_id)
             | Some aid \<Rightarrow>
                 if aid = [] then (r1, no_id)
                 else if length (registered_agents r1) \<ge> MAX_CONNECTIONS
                 then (r1, [(''success'', PBool False),
                            (''reason'', PStr ''Maximum connections reached'')])
                 else if dict_has (registered_agents r1) aid
                 then (r1, [(''success'', PBool False),
                            (''reason'', PStr ''Agent already registered'')])
                 else (r1\<lparr>registered_agents := dict_set aid data (registered_agents r1),
                          agent_states := dict_set aid AGENT_INITIALIZING (agent_states r1)\<rparr>,
                       [(''success'', PBool True),
                        (''agent_id'', PStr aid),
                        (''timestamp'', PTime now)]))) r"

text \<open>
  \<open>connect_agent\<close>; \<open>stamp\<close> is \<open>str(datetime.now().timestamp())\<close> of the session
  identifier.
\<close>

definition connect_agent ::
  "'h AgentInterface \<Rightarrow> string \<Rightarrow> int \<Rightarrow> string \<Rightarrow> ('h AgentInterface \<times> pydict) option" where
  "connect_agent r aid now stamp =
     with_lock (\<lambda>r1.
       Some (if dict_has (registered_agents r1) aid
             then (r1\<lparr>agent_states := dict_set aid AGENT_ACTIVE (agent_states r1),
                      connection_timestamps := dict_set aid now (connection_timestamps r1),
                      active_connections := dict_set aid () (active_connections r1)\<rparr>,
                   [(''success'', PBool True),
                    (''connection'', PNone),
                    (''session_id'', PStr (''session_'' @ aid @ ''_'' @ stamp))])
             else (r1, [(''success'', PBool False),
                        (''reason'', PStr ''Agent not registered'')]))) r"

definition disconnect_agent ::
  "'h AgentInterface \<Rightarrow> string \<Rightarrow> ('h AgentInterface \<times> unit) option" where
  "disconnect_agent r aid =
     with_lock (\<lambda>r1.
       Some (r1\<lparr>active_connections := dict_del aid (active_connections r1),
                connection_timestamps := dict_del aid (connection_timestamps r1),
                agent_states := (if dict_has (agent_states r1) aid
                                 then dict_set aid AGENT_DISCONNECTED (agent_states r1)
                                 else agent_states r1)\<rparr>, ())) r"

text \<open>
  \<open>(current_time - timestamp).seconds\<close>: a \<open>timedelta\<close> is normalised to days, seconds
  in \<open>[0, 86400)\<close> and microseconds in \<open>[0, 10^6)\<close>, and \<open>.seconds\<close> is the middle
  component. Datetimes are microseconds since the epoch.
\<close>

definition timedelta_seconds :: "int \<Rightarrow> int" where
  "timedelta_seconds us = (us div 1000000) mod 86400"

text \<open>The loop of \<open>_cleanup_inactive_connections\<close> over the items listed at its start.\<close>

fun disconnect_stale ::
  "int \<Rightarrow> (string \<times> int) list \<Rightarrow> 'h AgentInterface \<Rightarrow> 'h AgentInterface option" where
  "disconnect_stale now [] r = Some r"
| "disconnect_stale now (item # items) r =
     (if timedelta_seconds (now - snd item) > CONNECTION_TIMEOUT
      then (case disconnect_agent r (fst item) of
              None \<Rightarrow> None
            | Some (r1, u) \<Rightarrow> disconnect_stale now items r1)
      else disconnect_stale now items r)"

definition cleanup_inactive_connections ::
  "'h AgentInterface \<Rightarrow> int \<Rightarrow> ('h AgentInterface \<times> unit) option" where
  "cleanup_inactive_connections r now =
     with_lock (\<lambda>r1.
       case disconnect_stale now (connection_timestamps r1) r1 of
         None \<Rightarrow> None
       | Some r2 \<Rightarrow> Some (r2, ())) r"

definition cleanup_old_events :: "'h AgentInterface \<Rightarrow> ('h AgentInterface \<times> unit) option" where
  "cleanup_old_events r =
     with_lock (\<lambda>r1.
       Some (fold (\<lambda>aid r2. if dict_has (registered_agents r2) aid then r2
                             else r2\<lparr>event_handlers := dict_del aid (event_handlers r2)\<rparr>)
                  (dict_keys (event_handlers r1)) r1, ())) r"

text \<open>One pass of \<open>_periodic_cleanup\<close>, after its sleep.\<close>

definition janitor_pass :: "'h AgentInterface \<Rightarrow> int \<Rightarrow> 'h AgentInterface option" where
  "janitor_pass r now =
     (case cleanup_inactive_connections r now of
        None \<Rightarrow> None
      | Some (r1, u) \<Rightarrow> (case cleanup_old_events r1 of None \<Rightarrow> None | Some (r2, u) \<Rightarrow> Some r2))"

text \<open>The result dictionaries of \<open>register_agent\<close>.\<close>

definition no_agent_id :: pydict where
  "no_agent_id = [(''success'', PBool False), (''reason'', PStr ''No agent ID provided'')]"

definition maximum_reached :: pydict where
  "maximum_reached = [(''success'', PBool False), (''reason'', PStr ''Maximum connections reached'')]"

definition already_registered :: pydict where
  "already_registered = [(''success'', PBool False), (''reason'', PStr ''Agent already registered'')]"

definition registered_ok :: "int \<Rightarrow> string \<Rightarrow> pydict" where
  "registered_ok now aid =
     [(''success'', PBool True), (''agent_id'', PStr aid), (''timestamp'', PTime now)]"

text \<open>Registering a list of identifiers one after the other, with the result of each.\<close>

definition descriptor :: "string \<Rightarrow> agent_data" where
  "descriptor aid = \<lparr>agent_id = Some aid, attributes = []\<rparr>"

fun register_all ::
  "'h AgentInterface \<Rightarrow> string list \<Rightarrow> int \<Rightarrow> ('h AgentInterface \<times> pydict list) option" where
  "register_all r [] now = Some (r, [])"
| "register_all r (aid # aids) now =
     (case register_agent r (descriptor aid) now of
        None \<Rightarrow> None
      | Some (r1, res) \<Rightarrow>
          (case register_all r1 aids now of
             None \<Rightarrow> None
           | Some (r2, rs) \<Rightarrow> Some (r2, res # rs)))"

text \<open>A thousand distinct identifiers: \<open>a\<close>, \<open>aa\<close>, \<open>aaa\<close> and so on.\<close>

definition thousand_ids :: "string list" where
  "thousand_ids = map (\<lambda>n. replicate (Suc n) (CHR ''a'')) [0..<1000]"

definition full_interface :: "unit AgentInterface" where
  "full_interface =
     init_interface\<lparr>registered_agents := map (\<lambda>aid. (aid, descriptor aid)) thousand_ids,
                     agent_states := map (\<lambda>aid. (aid, AGENT_INITIALIZING)) thousand_ids\<rparr>"

text \<open>One agent, registered and connected at time 0.\<close>

definition one_connected :: "unit AgentInterface" where
  "one_connected =
     init_interface\<lparr>registered_agents := [(''agent_1'', descriptor ''agent_1'')],
                     agent_states := [(''agent_1'', AGENT_ACTIVE)],
                     active_connections := [(''agent_1'', ())],
                     connection_timestamps := [(''agent_1'', 0)]\<rparr>"

section \<open>Dictionaries\<close>

lemma fold_min_in_set: "fold min ks (k::string) \<in> set (k # ks)"
  by (induction ks arbitrary: k) (auto simp: min_def)

lemma min_key_in_set: "min_key ks = Some m \<Longrightarrow> m \<in> set ks"
  using fold_min_in_set by (cases ks) auto

lemma length_dict_set_le: "length (dict_set k v d) \<le> Suc (length d)"
  by (induction d) auto

lemma length_dict_del_less:
  "k \<in> set (dict_keys d) \<Longrightarrow> length (dict_del k d) < length d"
  unfolding dict_del_def dict_keys_def
  by (auto intro!: length_filter_less)

lemma map_of_dict_set: "map_of (dict_set k v d) k' = (if k' = k then Some v else map_of d k')"
  by (induction d) auto

lemma dict_set_absent: "\<not> dict_has d k \<Longrightarrow> dict_set k v d = d @ [(k, v)]"
  by (induction d) (auto simp: dict_has_def)

lemma dict_has_keys: "dict_has d k \<longleftrightarrow> k \<in> set (dict_keys d)"
  by (induction d) (auto simp: dict_has_def dict_keys_def)

section \<open>The control plane: bounded collections\<close>

lemma trim_save_states_bound:
  assumes "length (save_states c) \<le> Suc MAX_SAVE_STATES"
  shows "length (save_states (trim_save_states c)) \<le> MAX_SAVE_STATES"
proof (cases "length (save_states c) > MAX_SAVE_STATES")
  case False
  then show ?thesis by (simp add: trim_save_states_def)
next
  case True
  then have "dict_keys (save_states c) \<noteq> []"
    by (auto simp: dict_keys_def)
  then obtain m where m: "min_key (dict_keys (save_states c)) = Some m"
    by (cases "dict_keys (save_states c)") auto
  from min_key_in_set [OF m] have "length (dict_del m (save_states c)) < length (save_states c)"
    by (rule length_dict_del_less)
  with assms True m show ?thesis
    by (simp add: trim_save_states_def)
qed

lemma trim_save_states_history [simp]:
  "command_history (trim_save_states c) = command_history c"
  by (simp add: trim_save_states_def split: option.splits)

lemma dispatch_command_history:
  "command_history (fst (dispatch_command H c cmd ps rd)) = command_history c"
  by (cases cmd)
     (auto simp: start_simulation_def save_state_def load_state_def on_simulation_def Let_def
           split: option.splits sum.splits prod.splits pvalue.splits)

lemma dispatch_command_save_states:
  assumes "length (save_states c) \<le> MAX_SAVE_STATES"
  shows "length (save_states (fst (dispatch_command H c cmd ps rd))) \<le> MAX_SAVE_STATES"
proof (cases cmd)
  case SAVE
  have "length (dict_set k v (save_states c)) \<le> Suc MAX_SAVE_STATES" for k v
    using assms length_dict_set_le [of k v "save_states c"] by simp
  then show ?thesis
    using assms SAVE
    by (auto simp: save_state_def Let_def intro!: trim_save_states_bound split: sum.splits)
qed (use assms in \<open>auto simp: start_simulation_def load_state_def on_simulation_def Let_def
           split: option.splits sum.splits prod.splits pvalue.splits\<close>)

lemma trim_history_bound:
  "length (command_history (trim_history c)) \<le> MAX_HISTORY_ENTRIES"
  by (simp add: trim_history_def last_n_def)

lemma execute_command_bounded:
  assumes "bounded c"
  shows "bounded (fst (execute_command H c cmd ps rd))"
proof (cases "is_processing c")
  case True
  with assms show ?thesis by (simp add: execute_command_def)
next
  case False
  let ?c0 = "c\<lparr>is_processing := True\<rparr>"
  obtain c1 r where d: "dispatch_command H ?c0 cmd ps rd = (c1, r)"
    by (cases "dispatch_command H ?c0 cmd ps rd")
  have h: "command_history c1 = command_history c"
    using dispatch_command_history [of H ?c0 cmd ps rd] d by simp
  have s: "length (save_states c1) \<le> MAX_SAVE_STATES"
    using dispatch_command_save_states [of ?c0 H cmd ps rd] d assms by (simp add: bounded_def)
  show ?thesis
  proof (cases r)
    case (Inl e)
    with False d h s assms show ?thesis
      by (simp add: execute_command_def bounded_def)
  next
    case (Inr res)
    have "length (command_history (trim_history (log_command c1 cmd ps res rd))) \<le> MAX_HISTORY_ENTRIES"
      by (rule trim_history_bound)
    moreover have "save_states (trim_history (log_command c1 cmd ps res rd)) = save_states c1"
      by (simp add: trim_history_def log_command_def)
    ultimately show ?thesis
      using False d Inr s by (simp add: execute_command_def bounded_def)
  qed
qed

lemma run_commands_bounded:
  "bounded c \<Longrightarrow> bounded (run_commands H c calls)"
  by (induction calls arbitrary: c) (auto simp: execute_command_bounded)

text \<open>
  C1. Starting from a freshly constructed controller, after any sequence of calls of
  \<open>execute_command\<close> (any commands, parameters, clock readings and collaborators) the
  command history holds at most \<open>MAX_HISTORY_ENTRIES\<close> = 1000 entries and the snapshot
  store at most \<open>MAX_SAVE_STATES\<close> = 10. Every prefix of a sequence is a sequence, so
  the bounds hold after each call.
\<close>

theorem history_and_snapshots_bounded:
  "length (command_history (run_commands H (init_controller sim now) calls)) \<le> MAX_HISTORY_ENTRIES \<and>
   length (save_states (run_commands H (init_controller sim now) calls)) \<le> MAX_SAVE_STATES \<and>
   MAX_HISTORY_ENTRIES = 1000 \<and> MAX_SAVE_STATES = 10"
proof -
  have "bounded (init_controller sim now :: ('a, 'b) SandboxController)"
    by (simp add: bounded_def init_controller_def)
  then have "bounded (run_commands H (init_controller sim now) calls)"
    by (rule run_commands_bounded)
  then show ?thesis by (simp add: bounded_def MAX_HISTORY_ENTRIES_def MAX_SAVE_STATES_def)
qed

section \<open>The control plane: logging and exceptions\<close>

lemma trim_history_eq:
  "command_history (trim_history c) = last_n MAX_HISTORY_ENTRIES (command_history c)"
  by (simp add: trim_history_def last_n_def)

text \<open>
  C2, as the code has it. A call that is not turned away as busy and whose handler returns
  a result, a success or a failure, appends exactly one entry \<open>{timestamp, command,
  params, result}\<close> to \<open>command_history\<close>, which is then cut to its newest
  \<open>MAX_HISTORY_ENTRIES\<close> entries. A call turned away as busy, and a call whose handler
  raises, leave the history as it was.
\<close>

theorem execute_command_logs_returned_results:
  "(is_processing c \<longrightarrow>
      command_history (fst (execute_command H c cmd ps rd)) = command_history c) \<and>
   (\<not> is_processing c \<longrightarrow>
      (case snd (dispatch_command H (c\<lparr>is_processing := True\<rparr>) cmd ps rd) of
         Inl e \<Rightarrow> command_history (fst (execute_command H c cmd ps rd)) = command_history c
       | Inr res \<Rightarrow>
           snd (execute_command H c cmd ps rd) = Inr res \<and>
           command_history (fst (execute_command H c cmd ps rd)) =
             last_n MAX_HISTORY_ENTRIES
               (command_history c @
                [\<lparr>timestamp = log_reading rd, command = command_value cmd,
                  params = ps, result = res\<rparr>])))"
proof -
  let ?c0 = "c\<lparr>is_processing := True\<rparr>"
  obtain c1 r where d: "dispatch_command H ?c0 cmd ps rd = (c1, r)"
    by (cases "dispatch_command H ?c0 cmd ps rd")
  have h: "command_history c1 = command_history c"
    using dispatch_command_history [of H ?c0 cmd ps rd] d by simp
  show ?thesis
  proof (cases r)
    case (Inl e)
    with d h show ?thesis by (simp add: execute_command_def)
  next
    case (Inr res)
    with d h show ?thesis
      by (simp add: execute_command_def trim_history_eq log_command_def)
  qed
qed

text \<open>
  A first Start on a fresh controller: the history holds the one entry of that call. A
  Pause, whose handler raises, and a Start on a busy controller leave the history empty.
\<close>

theorem execute_command_logs_returned_results_witness:
  "snd (execute_command mock_collaborators (init_controller mock_simulation 0) START (Some [])
          \<lparr>save_id_reading = ''1700000000.5'', handler_reading = 7, log_reading = 9\<rparr>) =
     Inr [(''success'', PBool True), (''simulation_id'', PStr ''test_sim_001''),
          (''start_time'', PTime 7)] \<and>
   command_history (fst (execute_command mock_collaborators (init_controller mock_simulation 0)
          START (Some [])
          \<lparr>save_id_reading = ''1700000000.5'', handler_reading = 7, log_reading = 9\<rparr>)) =
     [\<lparr>timestamp = 9, command = ''start'', params = Some [],
       result = [(''success'', PBool True), (''simulation_id'', PStr ''test_sim_001''),
                 (''start_time'', PTime 7)]\<rparr>] \<and>
   command_history (fst (execute_command mock_collaborators (init_controller mock_simulation 0)
          PAUSE None (at_clock ''1700000000.5''))) = [] \<and>
   command_history (fst (execute_command mock_collaborators
          ((init_controller mock_simulation 0)\<lparr>is_processing := True\<rparr>)
          START None (at_clock ''1700000000.5''))) = []"
proof -
  let ?c = "init_controller mock_simulation 0 :: (unit, pydict) SandboxController"
  let ?rd = "\<lparr>save_id_reading = ''1700000000.5'', handler_reading = 7, log_reading = 9\<rparr>"
  have idle: "\<not> is_processing ?c" and busy: "is_processing (?c\<lparr>is_processing := True\<rparr>)"
    and h: "command_history ?c = []"
    by (simp_all add: init_controller_def)
  have s: "snd (dispatch_command mock_collaborators (?c\<lparr>is_processing := True\<rparr>) START (Some []) ?rd) =
      Inr [(''success'', PBool True), (''simulation_id'', PStr ''test_sim_001''),
           (''start_time'', PTime 7)]"
    by (simp add: init_controller_def mock_simulation_def start_simulation_def)
  have p: "snd (dispatch_command mock_collaborators (?c\<lparr>is_processing := True\<rparr>) PAUSE None
        (at_clock ''1700000000.5'')) = Inl (undefined_method ''_pause_simulation'')"
    by (simp add: on_simulation_def mock_collaborators_def)
  note t1 = execute_command_logs_returned_results
      [of ?c mock_collaborators START "Some []" ?rd, THEN conjunct2, rule_format, OF idle]
  note t2 = execute_command_logs_returned_results
      [of ?c mock_collaborators PAUSE None "at_clock ''1700000000.5''", THEN conjunct2,
       rule_format, OF idle]
  note t3 = execute_command_logs_returned_results
      [of "?c\<lparr>is_processing := True\<rparr>" mock_collaborators START None
          "at_clock ''1700000000.5''", THEN conjunct1, rule_format, OF busy]
  from t1 s h have "snd (execute_command mock_collaborators ?c START (Some []) ?rd) =
     Inr [(''success'', PBool True), (''simulation_id'', PStr ''test_sim_001''),
          (''start_time'', PTime 7)] \<and>
   command_history (fst (execute_command mock_collaborators ?c START (Some []) ?rd)) =
     [\<lparr>timestamp = 9, command = ''start'', params = Some [],
       result = [(''success'', PBool True), (''simulation_id'', PStr ''test_sim_001''),
                 (''start_time'', PTime 7)]\<rparr>]"
    by (simp add: last_n_def MAX_HISTORY_ENTRIES_def)
  moreover from t2 p h have "command_history (fst (execute_command mock_collaborators ?c
          PAUSE None (at_clock ''1700000000.5''))) = []"
    by simp
  moreover from t3 h have "command_history (fst (execute_command mock_collaborators
          (?c\<lparr>is_processing := True\<rparr>) START None (at_clock ''1700000000.5''))) = []"
    by simp
  ultimately show ?thesis by blast
qed

text \<open>
  C2 as stated fails. \<open>execute_command(ControlCommand.LOAD)\<close> on a fresh controller, with
  \<open>params\<close> left at its default \<open>None\<close>: \<open>params.get\<close> raises AttributeError in
  \<open>_load_state\<close>, the \<open>except\<close> clause returns the failure, and \<open>_log_command\<close> is
  skipped: the history is still empty.
\<close>

theorem load_without_params_not_logged:
  "command_history (fst (execute_command mock_collaborators
       (init_controller mock_simulation 0) LOAD None (at_clock ''1700000000.5''))) = [] \<and>
   snd (execute_command mock_collaborators
       (init_controller mock_simulation 0) LOAD None (at_clock ''1700000000.5'')) =
     Inr [(''success'', PBool False), (''command'', PStr ''load''),
          (''reason'', PStr (quoted ''NoneType'' @ '' object has no attribute '' @ quoted ''get''))] \<and>
   error_count (fst (execute_command mock_collaborators
       (init_controller mock_simulation 0) LOAD None (at_clock ''1700000000.5''))) = 1"
  by (simp add: execute_command_def init_controller_def load_state_def)

lemma trim_save_states_error_count [simp]:
  "error_count (trim_save_states c) = error_count c"
  by (simp add: trim_save_states_def split: option.splits)

lemma trim_history_error_count [simp]: "error_count (trim_history c) = error_count c"
  by (simp add: trim_history_def)

lemma dispatch_command_error_count:
  "error_count (fst (dispatch_command H c cmd ps rd)) = error_count c"
  by (cases cmd)
     (auto simp: start_simulation_def save_state_def load_state_def on_simulation_def Let_def
           split: option.splits sum.splits prod.splits pvalue.splits)

lemma save_state_catches:
  "get_state H (simulation c) = Inl e \<Longrightarrow>
   save_state H c ps rd = (c, Inr [(''success'', PBool False), (''reason'', PStr (exn_message e))])"
  by (simp add: save_state_def)

lemma load_state_catches:
  "k \<noteq> [] \<Longrightarrow> map_of (save_states c) k = Some b \<Longrightarrow>
   set_state H (simulation c) b = (sim1, Inl e) \<Longrightarrow>
   load_state H c (Some [(''save_id'', PStr k)]) rd =
     (c\<lparr>simulation := sim1\<rparr>,
      Inr [(''success'', PBool False), (''reason'', PStr (exn_message e))])"
  by (simp add: load_state_def dict_get_def Let_def)

lemma execute_command_returned:
  assumes "\<not> is_processing c"
    and "dispatch_command H (c\<lparr>is_processing := True\<rparr>) cmd ps rd = (c1, Inr res)"
  shows "snd (execute_command H c cmd ps rd) = Inr res"
    and "error_count (fst (execute_command H c cmd ps rd)) = error_count c"
    and "\<not> is_processing (fst (execute_command H c cmd ps rd))"
proof -
  have "error_count c1 = error_count c"
    using dispatch_command_error_count [of H "c\<lparr>is_processing := True\<rparr>" cmd ps rd] assms(2)
    by simp
  with assms show "snd (execute_command H c cmd ps rd) = Inr res"
    and "error_count (fst (execute_command H c cmd ps rd)) = error_count c"
    and "\<not> is_processing (fst (execute_command H c cmd ps rd))"
    by (simp_all add: execute_command_def log_command_def)
qed

lemma execute_command_raised:
  assumes "\<not> is_processing c"
    and "dispatch_command H (c\<lparr>is_processing := True\<rparr>) cmd ps rd = (c1, Inl e)"
  shows "snd (execute_command H c cmd ps rd) =
           Inr [(''success'', PBool False), (''command'', PStr (command_value cmd)),
                (''reason'', PStr (exn_message e))]"
    and "error_count (fst (execute_command H c cmd ps rd)) = error_count c + 1"
    and "\<not> is_processing (fst (execute_command H c cmd ps rd))"
proof -
  have "error_count c1 = error_count c"
    using dispatch_command_error_count [of H "c\<lparr>is_processing := True\<rparr>" cmd ps rd] assms(2)
    by simp
  with assms show "snd (execute_command H c cmd ps rd) =
           Inr [(''success'', PBool False), (''command'', PStr (command_value cmd)),
                (''reason'', PStr (exn_message e))]"
    and "error_count (fst (execute_command H c cmd ps rd)) = error_count c + 1"
    and "\<not> is_processing (fst (execute_command H c cmd ps rd))"
    by (simp_all add: execute_command_def)
qed

text \<open>
  C9, as the code has it. For every command, parameter value, controller state and
  collaborator, \<open>execute_command\<close> returns a result dictionary: no exception reaches the
  caller. A busy controller returns the busy failure and changes nothing; an idle one is
  idle again afterwards. An exception that leaves the command handler is caught by
  \<open>execute_command\<close>: the error counter goes up by one and the result is
  \<open>{success: False, command, reason: str(e)}\<close>. When the handler returns, its result is
  returned and the counter stays. In particular an exception of \<open>get_state\<close> during Save,
  or of \<open>set_state\<close> during Load, is caught inside the handler, which returns
  \<open>{success: False, reason: str(e)}\<close>: the counter is not incremented.
\<close>

theorem execute_command_never_raises:
  "(\<exists>c' res. execute_command H c cmd ps rd = (c', Inr res)) \<and>
   (is_processing c \<longrightarrow>
      execute_command H c cmd ps rd =
        (c, Inr [(''success'', PBool False), (''reason'', PStr ''Controller is busy'')])) \<and>
   (\<not> is_processing c \<longrightarrow>
      \<not> is_processing (fst (execute_command H c cmd ps rd)) \<and>
      (case snd (dispatch_command H (c\<lparr>is_processing := True\<rparr>) cmd ps rd) of
         Inl e \<Rightarrow>
           snd (execute_command H c cmd ps rd) =
             Inr [(''success'', PBool False), (''command'', PStr (command_value cmd)),
                  (''reason'', PStr (exn_message e))] \<and>
           error_count (fst (execute_command H c cmd ps rd)) = error_count c + 1
       | Inr res \<Rightarrow>
           snd (execute_command H c cmd ps rd) = Inr res \<and>
           error_count (fst (execute_command H c cmd ps rd)) = error_count c)) \<and>
   (\<forall>e. \<not> is_processing c \<and> get_state H (simulation c) = Inl e \<longrightarrow>
      snd (execute_command H c SAVE ps rd) =
        Inr [(''success'', PBool False), (''reason'', PStr (exn_message e))] \<and>
      error_count (fst (execute_command H c SAVE ps rd)) = error_count c) \<and>
   (\<forall>k b sim1 e. \<not> is_processing c \<and> k \<noteq> [] \<and> map_of (save_states c) k = Some b \<and>
        set_state H (simulation c) b = (sim1, Inl e) \<longrightarrow>
      snd (execute_command H c LOAD (Some [(''save_id'', PStr k)]) rd) =
        Inr [(''success'', PBool False), (''reason'', PStr (exn_message e))] \<and>
      error_count (fst (execute_command H c LOAD (Some [(''save_id'', PStr k)]) rd)) =
        error_count c)"
proof -
  let ?c0 = "c\<lparr>is_processing := True\<rparr>"
  obtain c1 r where d: "dispatch_command H ?c0 cmd ps rd = (c1, r)"
    by (cases "dispatch_command H ?c0 cmd ps rd")
  have busy: "is_processing c \<longrightarrow>
      execute_command H c cmd ps rd =
        (c, Inr [(''success'', PBool False), (''reason'', PStr ''Controller is busy'')])"
    by (simp add: execute_command_def)
  have idle: "\<not> is_processing c \<longrightarrow>
      \<not> is_processing (fst (execute_command H c cmd ps rd)) \<and>
      (case snd (dispatch_command H ?c0 cmd ps rd) of
         Inl e \<Rightarrow>
           snd (execute_command H c cmd ps rd) =
             Inr [(''success'', PBool False), (''command'', PStr (command_value cmd)),
                  (''reason'', PStr (exn_message e))] \<and>
           error_count (fst (execute_command H c cmd ps rd)) = error_count c + 1
       | Inr res \<Rightarrow>
           snd (execute_command H c cmd ps rd) = Inr res \<and>
           error_count (fst (execute_command H c cmd ps rd)) = error_count c)"
  proof (cases r)
    case (Inl e)
    with d execute_command_raised [of c H cmd ps rd c1 e] show ?thesis by simp
  next
    case (Inr res)
    with d execute_command_returned [of c H cmd ps rd c1 res] show ?thesis by simp
  qed
  have returns: "\<exists>c' res. execute_command H c cmd ps rd = (c', Inr res)"
  proof (cases "is_processing c")
    case True
    with busy show ?thesis by blast
  next
    case False
    with idle d show ?thesis
      by (cases r) (auto simp: execute_command_def)
  qed
  have save: "\<forall>e. \<not> is_processing c \<and> get_state H (simulation c) = Inl e \<longrightarrow>
      snd (execute_command H c SAVE ps rd) =
        Inr [(''success'', PBool False), (''reason'', PStr (exn_message e))] \<and>
      error_count (fst (execute_command H c SAVE ps rd)) = error_count c"
  proof (intro allI impI)
    fix e
    assume h: "\<not> is_processing c \<and> get_state H (simulation c) = Inl e"
    then have "dispatch_command H ?c0 SAVE ps rd =
        (?c0, Inr [(''success'', PBool False), (''reason'', PStr (exn_message e))])"
      using save_state_catches [of H ?c0 e ps rd] by simp
    with h execute_command_returned [of c H SAVE ps rd ?c0]
    show "snd (execute_command H c SAVE ps rd) =
        Inr [(''success'', PBool False), (''reason'', PStr (exn_message e))] \<and>
      error_count (fst (execute_command H c SAVE ps rd)) = error_count c"
      by simp
  qed
  have load: "\<forall>k b sim1 e. \<not> is_processing c \<and> k \<noteq> [] \<and> map_of (save_states c) k = Some b \<and>
        set_state H (simulation c) b = (sim1, Inl e) \<longrightarrow>
      snd (execute_command H c LOAD (Some [(''save_id'', PStr k)]) rd) =
        Inr [(''success'', PBool False), (''reason'', PStr (exn_message e))] \<and>
      error_count (fst (execute_command H c LOAD (Some [(''save_id'', PStr k)]) rd)) =
        error_count c"
  proof (intro allI impI)
    fix k b sim1 e
    assume h: "\<not> is_processing c \<and> k \<noteq> [] \<and> map_of (save_states c) k = Some b \<and>
        set_state H (simulation c) b = (sim1, Inl e)"
    then have "dispatch_command H ?c0 LOAD (Some [(''save_id'', PStr k)]) rd =
        (?c0\<lparr>simulation := sim1\<rparr>,
         Inr [(''success'', PBool False), (''reason'', PStr (exn_message e))])"
      using load_state_catches [of k ?c0 b H sim1 e rd] by simp
    with h execute_command_returned [of c H LOAD "Some [(''save_id'', PStr k)]" rd
        "?c0\<lparr>simulation := sim1\<rparr>"]
    show "snd (execute_command H c LOAD (Some [(''save_id'', PStr k)]) rd) =
        Inr [(''success'', PBool False), (''reason'', PStr (exn_message e))] \<and>
      error_count (fst (execute_command H c LOAD (Some [(''save_id'', PStr k)]) rd)) =
        error_count c"
      by simp
  qed
  from returns busy idle save load show ?thesis by blast
qed

text \<open>
  C9 as stated fails. Save on a fresh controller whose simulation has no \<open>get_state\<close>:
  the AttributeError is raised while the command executes, \<open>_save_state\<close> catches it
  and returns the failure, without the \<open>command\<close> entry, and \<open>error_count\<close> is still 0.
\<close>

theorem save_failure_not_counted:
  "snd (execute_command stateless_collaborators (init_controller mock_simulation 0) SAVE None
          (at_clock ''1700000000.5'')) =
     Inr [(''success'', PBool False),
          (''reason'', PStr (quoted ''SandboxSimulation'' @ '' object has no attribute '' @
                             quoted ''get_state''))] \<and>
   error_count (fst (execute_command stateless_collaborators (init_controller mock_simulation 0)
          SAVE None (at_clock ''1700000000.5''))) = 0"
  by (simp add: execute_command_def save_state_def stateless_collaborators_def
      init_controller_def log_command_def)

text \<open>
  A call on a busy controller; a Pause, whose handler raises; a Start, which returns; a
  Save whose \<open>get_state\<close> raises and a Load whose \<open>set_state\<close> raises.
\<close>

theorem execute_command_never_raises_witness:
  "execute_command mock_collaborators ((init_controller mock_simulation 0)\<lparr>is_processing := True\<rparr>)
      START None (at_clock ''1700000000.5'') =
     ((init_controller mock_simulation 0)\<lparr>is_processing := True\<rparr>,
      Inr [(''success'', PBool False), (''reason'', PStr ''Controller is busy'')]) \<and>
   snd (execute_command mock_collaborators (init_controller mock_simulation 0) PAUSE None
      (at_clock ''1700000000.5'')) =
     Inr [(''success'', PBool False), (''command'', PStr ''pause''),
          (''reason'', PStr (quoted ''SandboxController'' @ '' object has no attribute '' @
                             quoted ''_pause_simulation''))] \<and>
   error_count (fst (execute_command mock_collaborators (init_controller mock_simulation 0) PAUSE
      None (at_clock ''1700000000.5''))) = 1 \<and>
   snd (execute_command mock_collaborators (init_controller mock_simulation 0) START None
      (at_clock ''1700000000.5'')) =
     Inr [(''success'', PBool True), (''simulation_id'', PStr ''test_sim_001''),
          (''start_time'', PTime 0)] \<and>
   error_count (fst (execute_command mock_collaborators (init_controller mock_simulation 0) START
      None (at_clock ''1700000000.5''))) = 0 \<and>
   snd (execute_command stateless_collaborators (init_controller mock_simulation 0) SAVE None
      (at_clock ''1700000000.5'')) =
     Inr [(''success'', PBool False),
          (''reason'', PStr (quoted ''SandboxSimulation'' @ '' object has no attribute '' @
                             quoted ''get_state''))] \<and>
   error_count (fst (execute_command stateless_collaborators (init_controller mock_simulation 0)
      SAVE None (at_clock ''1700000000.5''))) = 0 \<and>
   snd (execute_command stateless_collaborators
      ((init_controller mock_simulation 0)\<lparr>save_states := [(''1700000000.5'', [])]\<rparr>) LOAD
      (Some [(''save_id'', PStr ''1700000000.5'')]) (at_clock ''1700000001.5'')) =
     Inr [(''success'', PBool False),
          (''reason'', PStr (quoted ''SandboxSimulation'' @ '' object has no attribute '' @
                             quoted ''set_state''))] \<and>
   error_count (fst (execute_command stateless_collaborators
      ((init_controller mock_simulation 0)\<lparr>save_states := [(''1700000000.5'', [])]\<rparr>) LOAD
      (Some [(''save_id'', PStr ''1700000000.5'')]) (at_clock ''1700000001.5''))) = 0"
proof -
  let ?c = "init_controller mock_simulation 0 :: (unit, pydict) SandboxController"
  let ?b = "?c\<lparr>is_processing := True\<rparr>"
  let ?s = "?c\<lparr>save_states := [(''1700000000.5'', [])]\<rparr>"
  let ?rd = "at_clock ''1700000000.5''"
  have idle: "\<not> is_processing ?c" "\<not> is_processing ?s" and busy: "is_processing ?b"
    and ec: "error_count ?c = 0" "error_count ?s = 0"
    by (simp_all add: init_controller_def)
  have p: "snd (dispatch_command mock_collaborators ?b PAUSE None ?rd) =
      Inl (undefined_method ''_pause_simulation'')"
    by (simp add: on_simulation_def mock_collaborators_def)
  have s: "snd (dispatch_command mock_collaborators ?b START None ?rd) =
      Inr [(''success'', PBool True), (''simulation_id'', PStr ''test_sim_001''),
           (''start_time'', PTime 0)]"
    by (simp add: start_simulation_def init_controller_def mock_simulation_def at_clock_def)
  have g: "get_state stateless_collaborators (simulation ?c) =
      Inl (PyException ''AttributeError''
            (quoted ''SandboxSimulation'' @ '' object has no attribute '' @ quoted ''get_state''))"
    by (simp add: stateless_collaborators_def)
  have l: "''1700000000.5'' \<noteq> [] \<and> map_of (save_states ?s) ''1700000000.5'' = Some [] \<and>
      set_state stateless_collaborators (simulation ?s) [] =
        (mock_simulation, Inl (PyException ''AttributeError''
            (quoted ''SandboxSimulation'' @ '' object has no attribute '' @ quoted ''set_state'')))"
    by (simp add: stateless_collaborators_def init_controller_def)
  note t1 = execute_command_never_raises [of mock_collaborators ?b START None ?rd,
      THEN conjunct2, THEN conjunct1, rule_format, OF busy]
  note t2 = execute_command_never_raises [of mock_collaborators ?c PAUSE None ?rd,
      THEN conjunct2, THEN conjunct2, THEN conjunct1, rule_format, OF idle(1), THEN conjunct2]
  note t3 = execute_command_never_raises [of mock_collaborators ?c START None ?rd,
      THEN conjunct2, THEN conjunct2, THEN conjunct1, rule_format, OF idle(1), THEN conjunct2]
  note t4 = execute_command_never_raises [of stateless_collaborators ?c SAVE None ?rd,
      THEN conjunct2, THEN conjunct2, THEN conjunct2, THEN conjunct1, rule_format,
      OF conjI [OF idle(1) g]]
  note t5 = execute_command_never_raises [of stateless_collaborators ?s LOAD None
      "at_clock ''1700000001.5''",
      THEN conjunct2, THEN conjunct2, THEN conjunct2, THEN conjunct2, rule_format,
      OF conjI [OF idle(2) l]]
  have a2: "snd (execute_command mock_collaborators ?c PAUSE None ?rd) =
     Inr [(''success'', PBool False), (''command'', PStr ''pause''),
          (''reason'', PStr (quoted ''SandboxController'' @ '' object has no attribute '' @
                             quoted ''_pause_simulation''))] \<and>
     error_count (fst (execute_command mock_collaborators ?c PAUSE None ?rd)) = 1"
    using t2 p ec by (simp add: undefined_method_def)
  have a3: "snd (execute_command mock_collaborators ?c START None ?rd) =
     Inr [(''success'', PBool True), (''simulation_id'', PStr ''test_sim_001''),
          (''start_time'', PTime 0)] \<and>
     error_count (fst (execute_command mock_collaborators ?c START None ?rd)) = 0"
    using t3 s ec by simp
  have a4: "snd (execute_command stateless_collaborators ?c SAVE None ?rd) =
     Inr [(''success'', PBool False),
          (''reason'', PStr (quoted ''SandboxSimulation'' @ '' object has no attribute '' @
                             quoted ''get_state''))] \<and>
     error_count (fst (execute_command stateless_collaborators ?c SAVE None ?rd)) = 0"
    using t4 ec by simp
  have a5: "snd (execute_command stateless_collaborators ?s LOAD
      (Some [(''save_id'', PStr ''1700000000.5'')]) (at_clock ''1700000001.5'')) =
     Inr [(''success'', PBool False),
          (''reason'', PStr (quoted ''SandboxSimulation'' @ '' object has no attribute '' @
                             quoted ''set_state''))] \<and>
     error_count (fst (execute_command stateless_collaborators ?s LOAD
      (Some [(''save_id'', PStr ''1700000000.5'')]) (at_clock ''1700000001.5''))) = 0"
    using t5 ec by simp
  from t1 a2 a3 a4 a5 show ?thesis by blast
qed

section \<open>The control plane: snapshots and Start\<close>

text \<open>
  C6 fails on the code. With the ten snapshots above in the store, a Save at the next
  second, clock reading 1000000000.0, succeeds and returns its identifier; the store then
  holds eleven keys, \<open>min\<close> compares them as strings, \<open>'1000000000.0'\<close> is the least,
  and the snapshot just taken is the one deleted: the ten older ones stay.
\<close>

theorem eviction_removes_newest_snapshot:
  "dict_keys (save_states ten_snapshots) = rollover_ids \<and>
   snd (execute_command mock_collaborators ten_snapshots SAVE None (at_clock ''1000000000.0'')) =
     Inr [(''success'', PBool True), (''save_id'', PStr ''1000000000.0''), (''timestamp'', PTime 0)] \<and>
   dict_keys (save_states (fst (execute_command mock_collaborators ten_snapshots SAVE None
      (at_clock ''1000000000.0'')))) = rollover_ids"
  by code_simp

text \<open>
  C4 fails on the code, by the same comparison. The Save at 1000000000.0 returns success
  and its identifier, nothing changes the simulation, and the Load of that identifier
  returns \<open>Save state not found\<close>.
\<close>

theorem load_after_save_not_found:
  "snd (execute_command mock_collaborators ten_snapshots SAVE None (at_clock ''1000000000.0'')) =
     Inr [(''success'', PBool True), (''save_id'', PStr ''1000000000.0''), (''timestamp'', PTime 0)] \<and>
   snd (execute_command mock_collaborators
          (fst (execute_command mock_collaborators ten_snapshots SAVE None (at_clock ''1000000000.0'')))
          LOAD (Some [(''save_id'', PStr ''1000000000.0'')]) (at_clock ''1000000000.5'')) =
     Inr [(''success'', PBool False), (''reason'', PStr ''Save state not found'')]"
  by code_simp

text \<open>
  C5 as stated fails. On a fresh controller, whose simulation is Initializing, a Start with
  a parameter calls \<open>_apply_simulation_params\<close>, which the class does not define: the
  call fails and the simulation is left in Error.
\<close>

theorem start_with_params_fails:
  "state (simulation (init_controller mock_simulation 0 :: (unit, pydict) SandboxController)) = INITIALIZING \<and>
   snd (execute_command mock_collaborators (init_controller mock_simulation 0) START
          (Some [(''time_scale'', PInt 2)]) (at_clock ''1700000000.5'')) =
     Inr [(''success'', PBool False), (''command'', PStr ''start''),
          (''reason'', PStr (exn_message (undefined_method ''_apply_simulation_params'')))] \<and>
   state (simulation (fst (execute_command mock_collaborators (init_controller mock_simulation 0) START
          (Some [(''time_scale'', PInt 2)]) (at_clock ''1700000000.5'')))) = ERROR"
  by (simp add: execute_command_def init_controller_def start_simulation_def mock_collaborators_def
        mock_simulation_def)

lemma trim_history_simulation [simp]: "simulation (trim_history c) = simulation c"
  by (simp add: trim_history_def)

lemma start_already_started:
  "state (simulation c) \<noteq> INITIALIZING \<Longrightarrow>
   start_simulation H c ps rd =
     (c, Inr [(''success'', PBool False), (''reason'', PStr ''Simulation already started'')])"
  by (simp add: start_simulation_def)

lemma start_without_params:
  "state (simulation c) = INITIALIZING \<Longrightarrow> ps = None \<or> ps = Some [] \<Longrightarrow>
   start_simulation H c ps rd =
     (c\<lparr>simulation := (simulation c)\<lparr>state := RUNNING\<rparr>, last_update := handler_reading rd\<rparr>,
      Inr [(''success'', PBool True), (''simulation_id'', PStr (simulation_id (simulation c))),
           (''start_time'', PTime (handler_reading rd))])"
  by (auto simp: start_simulation_def)

lemma start_twice:
  assumes "\<not> is_processing c" and "state (simulation c) = INITIALIZING"
    and "ps = None \<or> ps = Some []"
  shows "snd (execute_command H c START ps rd) =
        Inr [(''success'', PBool True), (''simulation_id'', PStr (simulation_id (simulation c))),
             (''start_time'', PTime (handler_reading rd))] \<and>
      state (simulation (fst (execute_command H c START ps rd))) = RUNNING \<and>
      snd (execute_command H (fst (execute_command H c START ps rd)) START ps' rd') =
        Inr [(''success'', PBool False), (''reason'', PStr ''Simulation already started'')]"
proof -
  let ?c0 = "c\<lparr>is_processing := True\<rparr>"
  let ?res = "[(''success'', PBool True), (''simulation_id'', PStr (simulation_id (simulation c))),
           (''start_time'', PTime (handler_reading rd))]"
  let ?c1 = "?c0\<lparr>simulation := (simulation c)\<lparr>state := RUNNING\<rparr>, last_update := handler_reading rd\<rparr>"
  let ?c2 = "(trim_history (log_command ?c1 START ps ?res rd))\<lparr>is_processing := False\<rparr>"
  have s: "start_simulation H ?c0 ps rd = (?c1, Inr ?res)"
    using start_without_params [of ?c0 ps H rd] assms by simp
  have x: "execute_command H c START ps rd = (?c2, Inr ?res)"
    using assms(1) s by (simp add: execute_command_def)
  have st: "state (simulation ?c2) = RUNNING" and np: "\<not> is_processing ?c2"
    by (simp_all add: log_command_def)
  let ?c3 = "?c2\<lparr>is_processing := True\<rparr>"
  have "state (simulation ?c3) \<noteq> INITIALIZING"
    using st by simp
  then have s2: "start_simulation H ?c3 ps' rd' =
     (?c3, Inr [(''success'', PBool False), (''reason'', PStr ''Simulation already started'')])"
    by (rule start_already_started)
  have y: "snd (execute_command H ?c2 START ps' rd') =
     Inr [(''success'', PBool False), (''reason'', PStr ''Simulation already started'')]"
    using np s2 by (simp add: execute_command_def)
  from x st y show ?thesis by simp
qed

text \<open>
  C5, as the code has it. \<open>_start_simulation\<close> fails with \<open>Simulation already
  started\<close>, changing nothing, unless the state is Initializing. In Initializing, with no
  parameters or an empty dictionary, it succeeds, sets Running and returns the
  simulation id and the start time; with parameters it applies them first and succeeds
  when that returns, and when that raises it sets Error and raises in turn. Two Starts in
  succession on an idle controller in Initializing, the first without parameters: the
  first succeeds and the second fails with \<open>Simulation already started\<close>.
\<close>

theorem start_succeeds_when_initializing:
  "(state (simulation c) \<noteq> INITIALIZING \<longrightarrow>
      start_simulation H c ps rd =
        (c, Inr [(''success'', PBool False), (''reason'', PStr ''Simulation already started'')])) \<and>
   (state (simulation c) = INITIALIZING \<and> (ps = None \<or> ps = Some []) \<longrightarrow>
      start_simulation H c ps rd =
        (c\<lparr>simulation := (simulation c)\<lparr>state := RUNNING\<rparr>, last_update := handler_reading rd\<rparr>,
         Inr [(''success'', PBool True), (''simulation_id'', PStr (simulation_id (simulation c))),
              (''start_time'', PTime (handler_reading rd))])) \<and>
   (\<forall>d sim1 e. state (simulation c) = INITIALIZING \<and> ps = Some d \<and> d \<noteq> [] \<and>
        apply_simulation_params H (simulation c) d = (sim1, Inl e) \<longrightarrow>
      start_simulation H c ps rd = (c\<lparr>simulation := sim1\<lparr>state := ERROR\<rparr>\<rparr>, Inl e)) \<and>
   (\<forall>d sim1. state (simulation c) = INITIALIZING \<and> ps = Some d \<and> d \<noteq> [] \<and>
        apply_simulation_params H (simulation c) d = (sim1, Inr ()) \<longrightarrow>
      start_simulation H c ps rd =
        (c\<lparr>simulation := sim1\<lparr>state := RUNNING\<rparr>, last_update := handler_reading rd\<rparr>,
         Inr [(''success'', PBool True), (''simulation_id'', PStr (simulation_id sim1)),
              (''start_time'', PTime (handler_reading rd))])) \<and>
   (\<not> is_processing c \<and> state (simulation c) = INITIALIZING \<and> (ps = None \<or> ps = Some []) \<longrightarrow>
      snd (execute_command H c START ps rd) =
        Inr [(''success'', PBool True), (''simulation_id'', PStr (simulation_id (simulation c))),
             (''start_time'', PTime (handler_reading rd))] \<and>
      state (simulation (fst (execute_command H c START ps rd))) = RUNNING \<and>
      snd (execute_command H (fst (execute_command H c START ps rd)) START ps' rd') =
        Inr [(''success'', PBool False), (''reason'', PStr ''Simulation already started'')])"
proof (intro conjI impI allI)
  assume "state (simulation c) \<noteq> INITIALIZING"
  then show "start_simulation H c ps rd =
        (c, Inr [(''success'', PBool False), (''reason'', PStr ''Simulation already started'')])"
    by (rule start_already_started)
next
  assume "state (simulation c) = INITIALIZING \<and> (ps = None \<or> ps = Some [])"
  then show "start_simulation H c ps rd =
        (c\<lparr>simulation := (simulation c)\<lparr>state := RUNNING\<rparr>, last_update := handler_reading rd\<rparr>,
         Inr [(''success'', PBool True), (''simulation_id'', PStr (simulation_id (simulation c))),
              (''start_time'', PTime (handler_reading rd))])"
    using start_without_params [of c ps H rd] by blast
next
  fix d sim1 e
  assume "state (simulation c) = INITIALIZING \<and> ps = Some d \<and> d \<noteq> [] \<and>
        apply_simulation_params H (simulation c) d = (sim1, Inl e)"
  then show "start_simulation H c ps rd = (c\<lparr>simulation := sim1\<lparr>state := ERROR\<rparr>\<rparr>, Inl e)"
    by (simp add: start_simulation_def)
next
  fix d sim1
  assume "state (simulation c) = INITIALIZING \<and> ps = Some d \<and> d \<noteq> [] \<and>
        apply_simulation_params H (simulation c) d = (sim1, Inr ())"
  then show "start_simulation H c ps rd =
        (c\<lparr>simulation := sim1\<lparr>state := RUNNING\<rparr>, last_update := handler_reading rd\<rparr>,
         Inr [(''success'', PBool True), (''simulation_id'', PStr (simulation_id sim1)),
              (''start_time'', PTime (handler_reading rd))])"
    by (simp add: start_simulation_def)
next
  assume h: "\<not> is_processing c \<and> state (simulation c) = INITIALIZING \<and> (ps = None \<or> ps = Some [])"
  then have "snd (execute_command H c START ps rd) =
        Inr [(''success'', PBool True), (''simulation_id'', PStr (simulation_id (simulation c))),
             (''start_time'', PTime (handler_reading rd))] \<and>
      state (simulation (fst (execute_command H c START ps rd))) = RUNNING \<and>
      snd (execute_command H (fst (execute_command H c START ps rd)) START ps' rd') =
        Inr [(''success'', PBool False), (''reason'', PStr ''Simulation already started'')]"
    using start_twice [of c ps H rd ps' rd'] by blast
  then show "snd (execute_command H c START ps rd) =
        Inr [(''success'', PBool True), (''simulation_id'', PStr (simulation_id (simulation c))),
             (''start_time'', PTime (handler_reading rd))]"
    and "state (simulation (fst (execute_command H c START ps rd))) = RUNNING"
    and "snd (execute_command H (fst (execute_command H c START ps rd)) START ps' rd') =
        Inr [(''success'', PBool False), (''reason'', PStr ''Simulation already started'')]"
    by simp_all
qed

text \<open>
  The five cases on concrete controllers: two Starts in a row, a Start in Paused, a Start
  whose parameters cannot be applied, and one whose parameters can.
\<close>

theorem start_succeeds_when_initializing_witness:
  "snd (execute_command mock_collaborators (init_controller mock_simulation 0) START (Some [])
         \<lparr>save_id_reading = ''1700000000.5'', handler_reading = 7, log_reading = 9\<rparr>) =
     Inr [(''success'', PBool True), (''simulation_id'', PStr ''test_sim_001''),
          (''start_time'', PTime 7)] \<and>
   state (simulation (fst (execute_command mock_collaborators (init_controller mock_simulation 0)
         START (Some [])
         \<lparr>save_id_reading = ''1700000000.5'', handler_reading = 7, log_reading = 9\<rparr>))) = RUNNING \<and>
   snd (execute_command mock_collaborators
         (fst (execute_command mock_collaborators (init_controller mock_simulation 0) START (Some [])
            \<lparr>save_id_reading = ''1700000000.5'', handler_reading = 7, log_reading = 9\<rparr>))
         START (Some []) (at_clock ''1700000001.5'')) =
     Inr [(''success'', PBool False), (''reason'', PStr ''Simulation already started'')] \<and>
   start_simulation mock_collaborators
      ((init_controller mock_simulation 0)\<lparr>simulation := mock_simulation\<lparr>state := PAUSED\<rparr>\<rparr>)
      None (at_clock ''1700000000.5'') =
     ((init_controller mock_simulation 0)\<lparr>simulation := mock_simulation\<lparr>state := PAUSED\<rparr>\<rparr>,
      Inr [(''success'', PBool False), (''reason'', PStr ''Simulation already started'')]) \<and>
   start_simulation mock_collaborators (init_controller mock_simulation 0)
      (Some [(''time_scale'', PInt 2)]) (at_clock ''1700000000.5'') =
     ((init_controller mock_simulation 0)\<lparr>simulation := mock_simulation\<lparr>state := ERROR\<rparr>\<rparr>,
      Inl (undefined_method ''_apply_simulation_params'')) \<and>
   start_simulation snapshot_collaborators (init_controller world_simulation 0)
      (Some [(''time_scale'', PInt 2)]) (at_clock ''1700000000.5'') =
     ((init_controller world_simulation 0)
        \<lparr>simulation := world_simulation\<lparr>state := RUNNING\<rparr>, last_update := 0\<rparr>,
      Inr [(''success'', PBool True), (''simulation_id'', PStr ''sim_w''),
           (''start_time'', PTime 0)])"
proof -
  let ?c = "init_controller mock_simulation 0 :: (unit, pydict) SandboxController"
  let ?w = "init_controller world_simulation 0 :: (pydict, pydict) SandboxController"
  have wi: "state (simulation ?w) = INITIALIZING"
    by (simp add: init_controller_def world_simulation_def)
  have wa: "apply_simulation_params snapshot_collaborators (simulation ?w) [(''time_scale'', PInt 2)] =
      (world_simulation, Inr ())"
    by (simp add: snapshot_collaborators_def init_controller_def)
  have wid: "simulation_id world_simulation = ''sim_w''"
    by (simp add: world_simulation_def)
  note t4 = start_succeeds_when_initializing
      [of ?w snapshot_collaborators "Some [(''time_scale'', PInt 2)]" "at_clock ''1700000000.5''"]
  let ?rd = "\<lparr>save_id_reading = ''1700000000.5'', handler_reading = 7, log_reading = 9\<rparr>"
  have i: "\<not> is_processing ?c \<and> state (simulation ?c) = INITIALIZING"
    by (simp add: init_controller_def mock_simulation_def)
  have id: "simulation_id (simulation ?c) = ''test_sim_001''"
    by (simp add: init_controller_def mock_simulation_def)
  have p: "state (simulation (?c\<lparr>simulation := mock_simulation\<lparr>state := PAUSED\<rparr>\<rparr>)) \<noteq> INITIALIZING"
    by simp
  have a: "apply_simulation_params mock_collaborators (simulation ?c) [(''time_scale'', PInt 2)] =
      (mock_simulation, Inl (undefined_method ''_apply_simulation_params''))"
    by (simp add: mock_collaborators_def init_controller_def)
  note t1 = start_succeeds_when_initializing
      [of ?c mock_collaborators "Some []" ?rd "Some []" "at_clock ''1700000001.5''"]
  note t2 = start_succeeds_when_initializing
      [of "?c\<lparr>simulation := mock_simulation\<lparr>state := PAUSED\<rparr>\<rparr>" mock_collaborators None
          "at_clock ''1700000000.5''"]
  note t3 = start_succeeds_when_initializing
      [of ?c mock_collaborators "Some [(''time_scale'', PInt 2)]" "at_clock ''1700000000.5''"]
  from t1 i id have "snd (execute_command mock_collaborators ?c START (Some []) ?rd) =
     Inr [(''success'', PBool True), (''simulation_id'', PStr ''test_sim_001''),
          (''start_time'', PTime 7)] \<and>
   state (simulation (fst (execute_command mock_collaborators ?c START (Some []) ?rd))) = RUNNING \<and>
   snd (execute_command mock_collaborators
         (fst (execute_command mock_collaborators ?c START (Some []) ?rd))
         START (Some []) (at_clock ''1700000001.5'')) =
     Inr [(''success'', PBool False), (''reason'', PStr ''Simulation already started'')]"
    by simp
  moreover from t2 p have "start_simulation mock_collaborators
      (?c\<lparr>simulation := mock_simulation\<lparr>state := PAUSED\<rparr>\<rparr>)
      None (at_clock ''1700000000.5'') =
     (?c\<lparr>simulation := mock_simulation\<lparr>state := PAUSED\<rparr>\<rparr>,
      Inr [(''success'', PBool False), (''reason'', PStr ''Simulation already started'')])"
    by blast
  moreover from t3 i a have "start_simulation mock_collaborators ?c
      (Some [(''time_scale'', PInt 2)]) (at_clock ''1700000000.5'') =
     (?c\<lparr>simulation := mock_simulation\<lparr>state := ERROR\<rparr>\<rparr>,
      Inl (undefined_method ''_apply_simulation_params''))"
    by simp
  moreover from t4 wi wa wid have "start_simulation snapshot_collaborators ?w
      (Some [(''time_scale'', PInt 2)]) (at_clock ''1700000000.5'') =
     (?w\<lparr>simulation := world_simulation\<lparr>state := RUNNING\<rparr>, last_update := 0\<rparr>,
      Inr [(''success'', PBool True), (''simulation_id'', PStr ''sim_w''),
           (''start_time'', PTime 0)])"
    by (simp add: at_clock_def)
  ultimately show ?thesis by blast
qed

section \<open>The tick scheduler\<close>

lemma run_steps_raise:
  "run_steps xs d w = (w1, Inr rs) \<Longrightarrow> f w1 d = (w2, Inl e) \<Longrightarrow>
   run_steps (xs @ f # ys) d w = (w2, Inl e)"
proof (induction xs arbitrary: w rs)
  case Nil
  then show ?case by simp
next
  case (Cons g xs)
  then show ?case
    by (auto split: prod.splits sum.splits)
qed

lemma update_not_running:
  "state sim \<noteq> RUNNING \<Longrightarrow>
   update F S sim dt =
     (sim, [(''success'', PBool False),
            (''reason'', PStr (''Simulation not running: '' @ state_str (state sim)))])"
  by (simp add: update_def)

lemma state_str_spelled:
  "state_str st =
     ''SimulationState.'' @
       (case st of INITIALIZING \<Rightarrow> ''INITIALIZING'' | RUNNING \<Rightarrow> ''RUNNING''
        | PAUSED \<Rightarrow> ''PAUSED'' | STOPPED \<Rightarrow> ''STOPPED'' | ERROR \<Rightarrow> ''ERROR'')"
  by (cases st) simp_all

lemma update_all_in_error:
  "state sim = ERROR \<Longrightarrow>
   update_all F S sim ds =
     (sim, map (\<lambda>d. [(''success'', PBool False),
                      (''reason'', PStr ''Simulation not running: SimulationState.ERROR'')]) ds)"
  by (induction ds) (simp_all add: update_not_running)

lemma update_step_raises:
  assumes "state sim = RUNNING" and "tick_steps F S = xs @ f # ys"
    and "run_steps xs (float_mul F dt (time_scale sim)) (world sim) = (w1, Inr rs)"
    and "f w1 (float_mul F dt (time_scale sim)) = (w2, Inl e)"
  shows "update F S sim dt =
           (sim\<lparr>world := w2, state := ERROR\<rparr>,
            [(''success'', PBool False), (''reason'', PStr (exn_message e))])"
proof -
  have "run_steps (tick_steps F S) (float_mul F dt (time_scale sim)) (world sim) = (w2, Inl e)"
    using run_steps_raise [where f = f and ys = ys, OF assms(3) assms(4)] assms(2) by simp
  with assms(1) show ?thesis
    by (simp add: update_def Let_def)
qed

text \<open>
  C3. \<open>update\<close> returns the failure \<open>Simulation not running: SimulationState.<state>\<close>,
  changing nothing, whenever the state is not Running. When in a tick the steps \<open>xs\<close>
  return and the next step \<open>f\<close> raises, the world is left as \<open>f\<close> left it, the state is
  set to Error, the steps \<open>ys\<close> after \<open>f\<close> are not run, and the failure carrying the
  message of the exception is returned. From then on every call of \<open>update\<close>, with any
  delta, returns \<open>Simulation not running: SimulationState.ERROR\<close> and leaves the
  simulation in Error: only something other than \<open>update\<close> takes it out of that state.
\<close>

theorem update_fails_until_reset:
  "(state sim \<noteq> RUNNING \<longrightarrow>
      update F S sim dt =
        (sim, [(''success'', PBool False),
               (''reason'', PStr (''Simulation not running: SimulationState.'' @
                  (case state sim of INITIALIZING \<Rightarrow> ''INITIALIZING'' | RUNNING \<Rightarrow> ''RUNNING''
                   | PAUSED \<Rightarrow> ''PAUSED'' | STOPPED \<Rightarrow> ''STOPPED'' | ERROR \<Rightarrow> ''ERROR'')))])) \<and>
   (\<forall>xs f ys w1 rs w2 e.
      state sim = RUNNING \<and> tick_steps F S = xs @ f # ys \<and>
      run_steps xs (float_mul F dt (time_scale sim)) (world sim) = (w1, Inr rs) \<and>
      f w1 (float_mul F dt (time_scale sim)) = (w2, Inl e) \<longrightarrow>
        update F S sim dt =
          (sim\<lparr>world := w2, state := ERROR\<rparr>,
           [(''success'', PBool False), (''reason'', PStr (exn_message e))]) \<and>
        (\<forall>ds. update_all F S (sim\<lparr>world := w2, state := ERROR\<rparr>) ds =
               (sim\<lparr>world := w2, state := ERROR\<rparr>,
                map (\<lambda>d. [(''success'', PBool False),
                           (''reason'', PStr ''Simulation not running: SimulationState.ERROR'')])
                    ds)))"
proof (intro conjI impI allI)
  assume "state sim \<noteq> RUNNING"
  then show "update F S sim dt =
        (sim, [(''success'', PBool False),
               (''reason'', PStr (''Simulation not running: SimulationState.'' @
                  (case state sim of INITIALIZING \<Rightarrow> ''INITIALIZING'' | RUNNING \<Rightarrow> ''RUNNING''
                   | PAUSED \<Rightarrow> ''PAUSED'' | STOPPED \<Rightarrow> ''STOPPED'' | ERROR \<Rightarrow> ''ERROR'')))])"
    using update_not_running [of sim F S dt] state_str_spelled [of "state sim"] by simp
next
  fix xs f ys w1 rs w2 e
  assume "state sim = RUNNING \<and> tick_steps F S = xs @ f # ys \<and>
      run_steps xs (float_mul F dt (time_scale sim)) (world sim) = (w1, Inr rs) \<and>
      f w1 (float_mul F dt (time_scale sim)) = (w2, Inl e)"
  then show "update F S sim dt =
          (sim\<lparr>world := w2, state := ERROR\<rparr>,
           [(''success'', PBool False), (''reason'', PStr (exn_message e))])"
    using update_step_raises [of sim F S xs f ys dt w1 rs w2 e] by blast
next
  fix w2 :: "'a tick_world" and ds
  have "state (sim\<lparr>world := w2, state := ERROR\<rparr>) = ERROR" by simp
  then show "update_all F S (sim\<lparr>world := w2, state := ERROR\<rparr>) ds =
               (sim\<lparr>world := w2, state := ERROR\<rparr>,
                map (\<lambda>d. [(''success'', PBool False),
                           (''reason'', PStr ''Simulation not running: SimulationState.ERROR'')])
                    ds)"
    by (rule update_all_in_error)
qed

lemma traced_prefix:
  "run_steps [pre_update physics_fails, environment_update physics_fails] 2 (world running_simulation) =
     (\<lparr>agent_ids = [''agent_1''], combat_events = 0, social_events = 0,
       parts = [''pre'', ''environment'']\<rparr>, Inr [PNone, PDict []])"
  by (simp add: physics_fails_def traced_subsystems_def note_call_def running_simulation_def)

lemma physics_raises:
  "physics_update exact_arith physics_fails
     \<lparr>agent_ids = [''agent_1''], combat_events = 0, social_events = 0,
      parts = [''pre'', ''environment'']\<rparr> 2 =
     (\<lparr>agent_ids = [''agent_1''], combat_events = 0, social_events = 0,
       parts = [''pre'', ''environment'', ''integrate'']\<rparr>,
      Inl (PyException ''RuntimeError'' ''physics diverged''))"
  by (simp add: physics_update_def max_substeps_def eval_nat_numeral physics_fails_def
      traced_subsystems_def note_call_def Let_def)

text \<open>
  A paused simulation, and a running one whose physics integration raises: the trace in
  \<open>parts\<close> stops there, the agents and the later steps are not run, and the next two
  updates fail.
\<close>

theorem update_fails_until_reset_witness:
  "update exact_arith physics_fails (running_simulation\<lparr>state := PAUSED\<rparr>) 1 =
     (running_simulation\<lparr>state := PAUSED\<rparr>,
      [(''success'', PBool False),
       (''reason'', PStr ''Simulation not running: SimulationState.PAUSED'')]) \<and>
   update exact_arith physics_fails running_simulation 1 =
     (running_simulation
        \<lparr>world := \<lparr>agent_ids = [''agent_1''], combat_events = 0, social_events = 0,
                    parts = [''pre'', ''environment'', ''integrate'']\<rparr>,
         state := ERROR\<rparr>,
      [(''success'', PBool False), (''reason'', PStr ''physics diverged'')]) \<and>
   update_all exact_arith physics_fails
     (running_simulation
        \<lparr>world := \<lparr>agent_ids = [''agent_1''], combat_events = 0, social_events = 0,
                    parts = [''pre'', ''environment'', ''integrate'']\<rparr>,
         state := ERROR\<rparr>) [1, 2] =
     (running_simulation
        \<lparr>world := \<lparr>agent_ids = [''agent_1''], combat_events = 0, social_events = 0,
                    parts = [''pre'', ''environment'', ''integrate'']\<rparr>,
         state := ERROR\<rparr>,
      [[(''success'', PBool False),
        (''reason'', PStr ''Simulation not running: SimulationState.ERROR'')],
       [(''success'', PBool False),
        (''reason'', PStr ''Simulation not running: SimulationState.ERROR'')]])"
proof -
  let ?xs = "[pre_update physics_fails, environment_update physics_fails]"
  let ?ys = "[update_agents physics_fails, resolve_combat physics_fails,
              update_social physics_fails, update_factions physics_fails,
              post_update physics_fails]"
  let ?w1 = "\<lparr>agent_ids = [''agent_1''], combat_events = 0, social_events = 0,
              parts = [''pre'', ''environment'']\<rparr>"
  let ?w2 = "\<lparr>agent_ids = [''agent_1''], combat_events = 0, social_events = 0,
              parts = [''pre'', ''environment'', ''integrate'']\<rparr>"
  let ?e = "PyException ''RuntimeError'' ''physics diverged''"
  have d: "float_mul exact_arith 1 (time_scale running_simulation) = 2"
    by (simp add: exact_arith_def running_simulation_def)
  have p: "state (running_simulation\<lparr>state := PAUSED\<rparr>) \<noteq> RUNNING" by simp
  have hyp: "state running_simulation = RUNNING \<and>
      tick_steps exact_arith physics_fails = ?xs @ physics_update exact_arith physics_fails # ?ys \<and>
      run_steps ?xs (float_mul exact_arith 1 (time_scale running_simulation))
        (world running_simulation) = (?w1, Inr [PNone, PDict []]) \<and>
      physics_update exact_arith physics_fails ?w1
        (float_mul exact_arith 1 (time_scale running_simulation)) = (?w2, Inl ?e)"
    unfolding d using traced_prefix physics_raises
    by (simp add: running_simulation_def tick_steps_def)
  note a = update_fails_until_reset [of "running_simulation\<lparr>state := PAUSED\<rparr>" exact_arith
      physics_fails 1, THEN conjunct1, rule_format, OF p]
  note b = update_fails_until_reset [of running_simulation exact_arith physics_fails 1,
      THEN conjunct2, rule_format, OF hyp]
  have a1: "update exact_arith physics_fails (running_simulation\<lparr>state := PAUSED\<rparr>) 1 =
     (running_simulation\<lparr>state := PAUSED\<rparr>,
      [(''success'', PBool False),
       (''reason'', PStr ''Simulation not running: SimulationState.PAUSED'')])"
    using a by simp
  have b1: "update exact_arith physics_fails running_simulation 1 =
     (running_simulation\<lparr>world := ?w2, state := ERROR\<rparr>,
      [(''success'', PBool False), (''reason'', PStr ''physics diverged'')])"
    using b [THEN conjunct1] by simp
  have b2: "update_all exact_arith physics_fails (running_simulation\<lparr>world := ?w2, state := ERROR\<rparr>)
        [1, 2] =
       (running_simulation\<lparr>world := ?w2, state := ERROR\<rparr>,
        map (\<lambda>d::real. [(''success'', PBool False),
                  (''reason'', PStr ''Simulation not running: SimulationState.ERROR'')]) [1, 2])"
    using b [THEN conjunct2] by (rule spec)
  have m: "map (\<lambda>d::real. [(''success'', PBool False),
                  (''reason'', PStr ''Simulation not running: SimulationState.ERROR'')]) [1, 2] =
      [[(''success'', PBool False),
        (''reason'', PStr ''Simulation not running: SimulationState.ERROR'')],
       [(''success'', PBool False),
        (''reason'', PStr ''Simulation not running: SimulationState.ERROR'')]]"
    by simp
  show ?thesis
    unfolding a1 b1 b2 m by simp
qed





section \<open>The control plane: Save followed by Load\<close>

text \<open>
  What Save followed by Load does when the snapshot is still in the store after the Save
  and the simulation's \<open>get_state\<close> and \<open>set_state\<close> return: the Load hands
  \<open>set_state\<close> the very value \<open>get_state\<close> returned at the Save, and both calls
  succeed. A store below \<open>MAX_SAVE_STATES\<close> keeps the snapshot.
\<close>

lemma save_then_load_restores:
  assumes idle: "\<not> is_processing c"
    and got: "get_state H (simulation c) = Inr b"
    and sid: "save_id_reading rd \<noteq> []"
    and kept: "map_of (save_states (fst (execute_command H c SAVE ps rd))) (save_id_reading rd) = Some b"
    and put: "set_state H (simulation c) b = (sim1, Inr ())"
  shows "snd (execute_command H c SAVE ps rd) =
           Inr [(''success'', PBool True), (''save_id'', PStr (save_id_reading rd)),
                (''timestamp'', PTime (handler_reading rd))] \<and>
         simulation (fst (execute_command H c SAVE ps rd)) = simulation c \<and>
         snd (execute_command H (fst (execute_command H c SAVE ps rd)) LOAD
                (Some [(''save_id'', PStr (save_id_reading rd))]) rd') =
           Inr [(''success'', PBool True), (''save_id'', PStr (save_id_reading rd)),
                (''timestamp'', PTime (handler_reading rd'))] \<and>
         simulation (fst (execute_command H (fst (execute_command H c SAVE ps rd)) LOAD
                (Some [(''save_id'', PStr (save_id_reading rd))]) rd')) = sim1"
proof -
  let ?c0 = "c\<lparr>is_processing := True\<rparr>"
  let ?ok = "[(''success'', PBool True), (''save_id'', PStr (save_id_reading rd)),
                (''timestamp'', PTime (handler_reading rd))]"
  let ?c1 = "trim_save_states (?c0\<lparr>save_states := dict_set (save_id_reading rd) b (save_states ?c0)\<rparr>)"
  let ?c2 = "(trim_history (log_command ?c1 SAVE ps ?ok rd))\<lparr>is_processing := False\<rparr>"
  have s: "save_state H ?c0 ps rd = (?c1, Inr ?ok)"
    using got by (simp add: save_state_def Let_def)
  have x: "execute_command H c SAVE ps rd = (?c2, Inr ?ok)"
    using idle s by (simp add: execute_command_def)
  have sim2: "simulation ?c2 = simulation c"
    by (simp add: trim_history_def log_command_def trim_save_states_def split: option.splits)
  have st2: "map_of (save_states ?c2) (save_id_reading rd) = Some b"
    using kept x by simp
  let ?c3 = "?c2\<lparr>is_processing := True\<rparr>"
  let ?ok2 = "[(''success'', PBool True), (''save_id'', PStr (save_id_reading rd)),
                (''timestamp'', PTime (handler_reading rd'))]"
  have l: "load_state H ?c3 (Some [(''save_id'', PStr (save_id_reading rd))]) rd' =
      (?c3\<lparr>simulation := sim1\<rparr>, Inr ?ok2)"
    using sid st2 sim2 put by (simp add: load_state_def Let_def dict_get_def)
  have y: "execute_command H ?c2 LOAD (Some [(''save_id'', PStr (save_id_reading rd))]) rd' =
      ((trim_history (log_command (?c3\<lparr>simulation := sim1\<rparr>) LOAD
          (Some [(''save_id'', PStr (save_id_reading rd))]) ?ok2 rd'))\<lparr>is_processing := False\<rparr>, Inr ?ok2)"
    using l by (simp add: execute_command_def)
  have sim4: "simulation ((trim_history (log_command (?c3\<lparr>simulation := sim1\<rparr>) LOAD
          (Some [(''save_id'', PStr (save_id_reading rd))]) ?ok2 rd'))\<lparr>is_processing := False\<rparr>) = sim1"
    by (simp add: trim_history_def log_command_def)
  show ?thesis
    unfolding x fst_conv snd_conv y using sim2 sim4 by simp
qed

lemma save_below_capacity_kept:
  assumes "\<not> is_processing c" and "get_state H (simulation c) = Inr b"
    and "length (save_states c) < MAX_SAVE_STATES"
  shows "map_of (save_states (fst (execute_command H c SAVE ps rd))) (save_id_reading rd) = Some b"
proof -
  have "length (dict_set (save_id_reading rd) b (save_states c)) \<le> MAX_SAVE_STATES"
    using length_dict_set_le [of "save_id_reading rd" b "save_states c"] assms(3) by simp
  then show ?thesis
    using assms(1,2)
    by (simp add: execute_command_def save_state_def Let_def trim_save_states_def
        trim_history_def log_command_def map_of_dict_set)
qed

section \<open>The connection registry\<close>

lemma register_no_id:
  "\<not> lock_held r \<Longrightarrow> agent_id d = None \<or> agent_id d = Some [] \<Longrightarrow>
   register_agent r d now = Some (r, no_agent_id)"
  by (auto simp: register_agent_def with_lock_def no_agent_id_def)

lemma register_full:
  "\<not> lock_held r \<Longrightarrow> agent_id d = Some aid \<Longrightarrow> aid \<noteq> [] \<Longrightarrow>
   length (registered_agents r) \<ge> MAX_CONNECTIONS \<Longrightarrow>
   register_agent r d now = Some (r, maximum_reached)"
  by (simp add: register_agent_def with_lock_def maximum_reached_def)

lemma register_again:
  "\<not> lock_held r \<Longrightarrow> agent_id d = Some aid \<Longrightarrow> aid \<noteq> [] \<Longrightarrow>
   length (registered_agents r) < MAX_CONNECTIONS \<Longrightarrow> dict_has (registered_agents r) aid \<Longrightarrow>
   register_agent r d now = Some (r, already_registered)"
  by (simp add: register_agent_def with_lock_def already_registered_def)

lemma register_new:
  "\<not> lock_held r \<Longrightarrow> agent_id d = Some aid \<Longrightarrow> aid \<noteq> [] \<Longrightarrow>
   length (registered_agents r) < MAX_CONNECTIONS \<Longrightarrow> \<not> dict_has (registered_agents r) aid \<Longrightarrow>
   register_agent r d now =
     Some (r\<lparr>registered_agents := dict_set aid d (registered_agents r),
             agent_states := dict_set aid AGENT_INITIALIZING (agent_states r)\<rparr>,
           registered_ok now aid)"
  by (simp add: register_agent_def with_lock_def registered_ok_def)

lemma register_all_fresh:
  assumes "\<not> lock_held r" and "distinct ids" and "[] \<notin> set ids"
    and "set ids \<inter> set (dict_keys (registered_agents r)) = {}"
    and "set ids \<inter> set (dict_keys (agent_states r)) = {}"
    and "length (registered_agents r) + length ids \<le> MAX_CONNECTIONS"
  shows "register_all r ids now =
     Some (r\<lparr>registered_agents := registered_agents r @ map (\<lambda>aid. (aid, descriptor aid)) ids,
             agent_states := agent_states r @ map (\<lambda>aid. (aid, AGENT_INITIALIZING)) ids\<rparr>,
           map (registered_ok now) ids)"
  using assms
proof (induction ids arbitrary: r)
  case Nil
  then show ?case by simp
next
  case (Cons aid ids)
  let ?r1 = "r\<lparr>registered_agents := dict_set aid (descriptor aid) (registered_agents r),
             agent_states := dict_set aid AGENT_INITIALIZING (agent_states r)\<rparr>"
  have fresh: "\<not> dict_has (registered_agents r) aid" "\<not> dict_has (agent_states r) aid"
    using Cons.prems(4,5) by (auto simp: dict_has_keys)
  have reg: "register_agent r (descriptor aid) now = Some (?r1, registered_ok now aid)"
  proof (rule register_new)
    show "\<not> lock_held r" by (rule Cons.prems(1))
    show "agent_id (descriptor aid) = Some aid" by (simp add: descriptor_def)
    show "aid \<noteq> []" using Cons.prems(3) by auto
    show "length (registered_agents r) < MAX_CONNECTIONS" using Cons.prems(6) by simp
    show "\<not> dict_has (registered_agents r) aid" by (rule fresh(1))
  qed
  have r1: "registered_agents ?r1 = registered_agents r @ [(aid, descriptor aid)]"
           "agent_states ?r1 = agent_states r @ [(aid, AGENT_INITIALIZING)]"
    using fresh by (simp_all add: dict_set_absent)
  have "register_all ?r1 ids now =
     Some (?r1\<lparr>registered_agents := registered_agents ?r1 @ map (\<lambda>aid. (aid, descriptor aid)) ids,
             agent_states := agent_states ?r1 @ map (\<lambda>aid. (aid, AGENT_INITIALIZING)) ids\<rparr>,
           map (registered_ok now) ids)"
  proof (rule Cons.IH)
    show "\<not> lock_held ?r1" using Cons.prems(1) by simp
    show "distinct ids" using Cons.prems(2) by simp
    show "[] \<notin> set ids" using Cons.prems(3) by simp
    show "set ids \<inter> set (dict_keys (registered_agents ?r1)) = {}"
      using Cons.prems(2,4) unfolding r1 by (auto simp: dict_keys_def)
    show "set ids \<inter> set (dict_keys (agent_states ?r1)) = {}"
      using Cons.prems(2,5) unfolding r1 by (auto simp: dict_keys_def)
    show "length (registered_agents ?r1) + length ids \<le> MAX_CONNECTIONS"
      using Cons.prems(6) unfolding r1 by simp
  qed
  then show ?case
    using reg r1 by simp
qed

lemma register_all_from_empty:
  assumes "distinct ids" and "[] \<notin> set ids" and "length ids \<le> MAX_CONNECTIONS"
  shows "register_all (init_interface :: 'h AgentInterface) ids now =
     Some (init_interface\<lparr>registered_agents := map (\<lambda>aid. (aid, descriptor aid)) ids,
                           agent_states := map (\<lambda>aid. (aid, AGENT_INITIALIZING)) ids\<rparr>,
           map (registered_ok now) ids)"
  using register_all_fresh [of "init_interface :: 'h AgentInterface" ids now] assms
  by (simp add: init_interface_def dict_keys_def)

text \<open>
  C7, as the code has it. With the lock free, \<open>register_agent\<close> fails with \<open>No agent
  ID provided\<close> when the descriptor has no id or an empty one; else with \<open>Maximum
  connections reached\<close> when \<open>MAX_CONNECTIONS\<close> agents are registered, whether or not
  the id is among them; else with \<open>Agent already registered\<close> when the id is registered;
  a failure leaves the registry as it was, so no duplicate entry appears. Otherwise it
  stores the descriptor under the id, sets the agent's state to Initializing and returns
  the id and the timestamp. Registering \<open>MAX_CONNECTIONS\<close> = 1000 distinct identifiers on
  an empty registry succeeds for each, and any registration after them fails with
  \<open>Maximum connections reached\<close>.
\<close>

theorem register_agent_checks:
  "(\<not> lock_held r \<and> (agent_id d = None \<or> agent_id d = Some []) \<longrightarrow>
      register_agent r d now = Some (r, no_agent_id)) \<and>
   (\<forall>aid. \<not> lock_held r \<and> agent_id d = Some aid \<and> aid \<noteq> [] \<and>
      length (registered_agents r) \<ge> MAX_CONNECTIONS \<longrightarrow>
      register_agent r d now = Some (r, maximum_reached)) \<and>
   (\<forall>aid. \<not> lock_held r \<and> agent_id d = Some aid \<and> aid \<noteq> [] \<and>
      length (registered_agents r) < MAX_CONNECTIONS \<and> dict_has (registered_agents r) aid \<longrightarrow>
      register_agent r d now = Some (r, already_registered)) \<and>
   (\<forall>aid. \<not> lock_held r \<and> agent_id d = Some aid \<and> aid \<noteq> [] \<and>
      length (registered_agents r) < MAX_CONNECTIONS \<and> \<not> dict_has (registered_agents r) aid \<longrightarrow>
      register_agent r d now =
        Some (r\<lparr>registered_agents := dict_set aid d (registered_agents r),
                agent_states := dict_set aid AGENT_INITIALIZING (agent_states r)\<rparr>,
              registered_ok now aid) \<and>
      map_of (dict_set aid d (registered_agents r)) aid = Some d \<and>
      map_of (dict_set aid AGENT_INITIALIZING (agent_states r)) aid = Some AGENT_INITIALIZING) \<and>
   (\<forall>ids aid. distinct ids \<and> [] \<notin> set ids \<and> length ids = MAX_CONNECTIONS \<and> aid \<noteq> [] \<longrightarrow>
      register_all (init_interface :: 'h AgentInterface) ids now =
        Some (init_interface\<lparr>registered_agents := map (\<lambda>aid. (aid, descriptor aid)) ids,
                              agent_states := map (\<lambda>aid. (aid, AGENT_INITIALIZING)) ids\<rparr>,
              map (registered_ok now) ids) \<and>
      register_agent
        ((init_interface :: 'h AgentInterface)
           \<lparr>registered_agents := map (\<lambda>aid. (aid, descriptor aid)) ids,
            agent_states := map (\<lambda>aid. (aid, AGENT_INITIALIZING)) ids\<rparr>)
        (descriptor aid) now' =
        Some (init_interface\<lparr>registered_agents := map (\<lambda>aid. (aid, descriptor aid)) ids,
                              agent_states := map (\<lambda>aid. (aid, AGENT_INITIALIZING)) ids\<rparr>,
              maximum_reached)) \<and>
   MAX_CONNECTIONS = 1000"
proof (intro conjI impI allI)
  assume "\<not> lock_held r \<and> (agent_id d = None \<or> agent_id d = Some [])"
  then show "register_agent r d now = Some (r, no_agent_id)"
    using register_no_id [of r d now] by blast
next
  fix aid
  assume "\<not> lock_held r \<and> agent_id d = Some aid \<and> aid \<noteq> [] \<and>
      length (registered_agents r) \<ge> MAX_CONNECTIONS"
  then show "register_agent r d now = Some (r, maximum_reached)"
    using register_full [of r d aid now] by blast
next
  fix aid
  assume "\<not> lock_held r \<and> agent_id d = Some aid \<and> aid \<noteq> [] \<and>
      length (registered_agents r) < MAX_CONNECTIONS \<and> dict_has (registered_agents r) aid"
  then show "register_agent r d now = Some (r, already_registered)"
    using register_again [of r d aid now] by blast
next
  fix aid
  assume "\<not> lock_held r \<and> agent_id d = Some aid \<and> aid \<noteq> [] \<and>
      length (registered_agents r) < MAX_CONNECTIONS \<and> \<not> dict_has (registered_agents r) aid"
  then show "register_agent r d now =
        Some (r\<lparr>registered_agents := dict_set aid d (registered_agents r),
                agent_states := dict_set aid AGENT_INITIALIZING (agent_states r)\<rparr>,
              registered_ok now aid)"
    using register_new [of r d aid now] by blast
next
  fix aid
  show "map_of (dict_set aid d (registered_agents r)) aid = Some d"
    by (simp add: map_of_dict_set)
next
  fix aid
  show "map_of (dict_set aid AGENT_INITIALIZING (agent_states r)) aid = Some AGENT_INITIALIZING"
    by (simp add: map_of_dict_set)
next
  fix ids :: "string list" and aid :: string
  assume "distinct ids \<and> [] \<notin> set ids \<and> length ids = MAX_CONNECTIONS \<and> aid \<noteq> []"
  then show "register_all (init_interface :: 'h AgentInterface) ids now =
        Some (init_interface\<lparr>registered_agents := map (\<lambda>aid. (aid, descriptor aid)) ids,
                              agent_states := map (\<lambda>aid. (aid, AGENT_INITIALIZING)) ids\<rparr>,
              map (registered_ok now) ids)"
    using register_all_from_empty [of ids now] by simp
next
  fix ids :: "string list" and aid :: string
  let ?full = "(init_interface :: 'h AgentInterface)
           \<lparr>registered_agents := map (\<lambda>aid. (aid, descriptor aid)) ids,
            agent_states := map (\<lambda>aid. (aid, AGENT_INITIALIZING)) ids\<rparr>"
  assume "distinct ids \<and> [] \<notin> set ids \<and> length ids = MAX_CONNECTIONS \<and> aid \<noteq> []"
  then show "register_agent ?full (descriptor aid) now' = Some (?full, maximum_reached)"
    using register_full [of ?full "descriptor aid" aid now']
    by (simp add: init_interface_def descriptor_def)
next
  show "MAX_CONNECTIONS = 1000" by (simp add: MAX_CONNECTIONS_def)
qed

lemma thousand_ids_facts:
  "distinct thousand_ids" "[] \<notin> set thousand_ids" "length thousand_ids = MAX_CONNECTIONS"
  "''a'' \<in> set thousand_ids"
proof -
  show "distinct thousand_ids"
    by (simp add: thousand_ids_def distinct_map inj_on_def)
  show "[] \<notin> set thousand_ids"
    by (auto simp: thousand_ids_def)
  show "length thousand_ids = MAX_CONNECTIONS"
    by (simp add: thousand_ids_def MAX_CONNECTIONS_def)
  have "replicate (Suc 0) (CHR ''a'') \<in> (\<lambda>n. replicate (Suc n) (CHR ''a'')) ` set [0..<1000]"
    by (rule imageI) simp
  then show "''a'' \<in> set thousand_ids"
    by (simp add: thousand_ids_def)
qed

lemma full_interface_facts:
  "\<not> lock_held full_interface" "length (registered_agents full_interface) = MAX_CONNECTIONS"
  "dict_has (registered_agents full_interface) ''a''"
proof -
  show "\<not> lock_held full_interface"
    by (simp add: full_interface_def init_interface_def)
  show "length (registered_agents full_interface) = MAX_CONNECTIONS"
    by (simp add: full_interface_def thousand_ids_facts)
  have "''a'' \<in> set (dict_keys (registered_agents full_interface))"
    using thousand_ids_facts(4) by (simp add: full_interface_def dict_keys_def comp_def)
  then show "dict_has (registered_agents full_interface) ''a''"
    by (simp add: dict_has_keys)
qed

text \<open>
  C7 as stated fails. On a registry holding 1000 agents, one of them \<open>a\<close>, registering
  \<open>a\<close> again returns \<open>Maximum connections reached\<close>, not \<open>Agent already
  registered\<close>: the capacity check of line 92 comes before the membership check of line 95.
\<close>

theorem registered_id_on_full_registry:
  "dict_has (registered_agents full_interface) ''a'' \<and>
   register_agent full_interface (descriptor ''a'') 0 =
     Some (full_interface,
           [(''success'', PBool False), (''reason'', PStr ''Maximum connections reached'')])"
proof -
  have "register_agent full_interface (descriptor ''a'') 0 = Some (full_interface, maximum_reached)"
    by (rule register_full [where aid = "''a''"])
       (simp_all add: full_interface_facts descriptor_def)
  then show ?thesis
    using full_interface_facts(3) by (simp add: maximum_reached_def)
qed


text \<open>
  The four outcomes on concrete registries, and a thousand registrations in a row.
\<close>

theorem register_agent_checks_witness:
  "register_agent (init_interface :: unit AgentInterface)
      \<lparr>agent_id = None, attributes = [(''name'', PStr ''scout'')]\<rparr> 0 =
     Some (init_interface, no_agent_id) \<and>
   register_agent full_interface (descriptor ''zed'') 1 = Some (full_interface, maximum_reached) \<and>
   register_agent one_connected (descriptor ''agent_1'') 5 = Some (one_connected, already_registered) \<and>
   register_agent (init_interface :: unit AgentInterface) (descriptor ''agent_1'') 0 =
     Some (init_interface\<lparr>registered_agents := [(''agent_1'', descriptor ''agent_1'')],
                           agent_states := [(''agent_1'', AGENT_INITIALIZING)]\<rparr>,
           registered_ok 0 ''agent_1'') \<and>
   register_all (init_interface :: unit AgentInterface) thousand_ids 0 =
     Some (full_interface, map (registered_ok 0) thousand_ids) \<and>
   length thousand_ids = 1000"
proof -
  let ?i = "init_interface :: unit AgentInterface"
  let ?d0 = "\<lparr>agent_id = None, attributes = [(''name'', PStr ''scout'')]\<rparr>"
  have i: "\<not> lock_held ?i" "length (registered_agents ?i) < MAX_CONNECTIONS"
    "\<not> dict_has (registered_agents ?i) ''agent_1''" "registered_agents ?i = []" "agent_states ?i = []"
    by (simp_all add: init_interface_def MAX_CONNECTIONS_def dict_has_def)
  have o: "\<not> lock_held one_connected" "length (registered_agents one_connected) < MAX_CONNECTIONS"
    "dict_has (registered_agents one_connected) ''agent_1''"
    by (simp_all add: one_connected_def init_interface_def MAX_CONNECTIONS_def dict_has_def)
  have d: "agent_id (descriptor ''agent_1'') = Some ''agent_1''" "agent_id (descriptor ''zed'') = Some ''zed''"
    by (simp_all add: descriptor_def)
  have c1: "register_agent ?i ?d0 0 = Some (?i, no_agent_id)"
    using register_agent_checks [of ?i ?d0 0, THEN conjunct1] i(1) by simp
  have c2: "register_agent full_interface (descriptor ''zed'') 1 = Some (full_interface, maximum_reached)"
    using register_agent_checks [of full_interface "descriptor ''zed''" 1, THEN conjunct2,
        THEN conjunct1, rule_format, of "''zed''"] full_interface_facts d
    by simp
  have c3: "register_agent one_connected (descriptor ''agent_1'') 5 =
      Some (one_connected, already_registered)"
    using register_agent_checks [of one_connected "descriptor ''agent_1''" 5, THEN conjunct2,
        THEN conjunct2, THEN conjunct1, rule_format, of "''agent_1''"] o d by simp
  have c4: "register_agent ?i (descriptor ''agent_1'') 0 =
     Some (?i\<lparr>registered_agents := [(''agent_1'', descriptor ''agent_1'')],
              agent_states := [(''agent_1'', AGENT_INITIALIZING)]\<rparr>,
           registered_ok 0 ''agent_1'')"
    using register_agent_checks [of ?i "descriptor ''agent_1''" 0, THEN conjunct2,
        THEN conjunct2, THEN conjunct2, THEN conjunct1, rule_format, of "''agent_1''"] i d
    by simp
  have c5: "register_all ?i thousand_ids 0 = Some (full_interface, map (registered_ok 0) thousand_ids)"
    using register_agent_checks [where 'h = unit, THEN conjunct2, THEN conjunct2, THEN conjunct2,
        THEN conjunct2, THEN conjunct1, rule_format, of thousand_ids "''zed''" 0]
      thousand_ids_facts
    by (simp add: full_interface_def)
  have c6: "length thousand_ids = 1000"
    using thousand_ids_facts(3) by (simp add: MAX_CONNECTIONS_def)
  from c1 c2 c3 c4 c5 c6 show ?thesis by blast
qed

lemma disconnect_agent_blocks: "lock_held r \<Longrightarrow> disconnect_agent r aid = None"
  by (simp add: disconnect_agent_def with_lock_def)

lemma disconnect_stale_held:
  "lock_held r \<Longrightarrow>
   disconnect_stale now items r =
     (if list_ex (\<lambda>item. timedelta_seconds (now - snd item) > CONNECTION_TIMEOUT) items
      then None else Some r)"
  by (induction items) (simp_all add: disconnect_agent_blocks)

text \<open>
  \<open>_cleanup_inactive_connections\<close> holds the lock while it calls \<open>_disconnect_agent\<close>,
  which takes the same lock: with a stale connection the call never returns, and without
  one it changes nothing.
\<close>

lemma cleanup_never_disconnects:
  "cleanup_inactive_connections r now = None \<or> cleanup_inactive_connections r now = Some (r, ())"
proof (cases "lock_held r")
  case True
  then show ?thesis by (simp add: cleanup_inactive_connections_def with_lock_def)
next
  case False
  have "lock_held (r\<lparr>lock_held := True\<rparr>)" by simp
  from disconnect_stale_held [OF this] False show ?thesis
    by (simp add: cleanup_inactive_connections_def with_lock_def)
qed

text \<open>
  C8 fails on the code. An agent registered and connected at time 0 is idle for 31
  seconds when the janitor runs: the pass never returns, and the connection is not
  removed; \<open>_disconnect_agent\<close> called with the lock free does remove it and sets the
  state to Disconnected. Idle for one day and five seconds, \<open>.seconds\<close> of the
  difference is 5: the pass returns and the agent is still connected and Active.
\<close>

theorem janitor_blocks_on_stale_connection:
  "register_agent (init_interface :: unit AgentInterface) (descriptor ''agent_1'') 0 =
     Some (init_interface\<lparr>registered_agents := [(''agent_1'', descriptor ''agent_1'')],
                           agent_states := [(''agent_1'', AGENT_INITIALIZING)]\<rparr>,
           [(''success'', PBool True), (''agent_id'', PStr ''agent_1''), (''timestamp'', PTime 0)]) \<and>
   connect_agent
     ((init_interface :: unit AgentInterface)
        \<lparr>registered_agents := [(''agent_1'', descriptor ''agent_1'')],
         agent_states := [(''agent_1'', AGENT_INITIALIZING)]\<rparr>) ''agent_1'' 0 ''0.0'' =
     Some (one_connected,
           [(''success'', PBool True), (''connection'', PNone),
            (''session_id'', PStr ''session_agent_1_0.0'')]) \<and>
   timedelta_seconds (31000000 - 0) = 31 \<and>
   janitor_pass one_connected 31000000 = None \<and>
   disconnect_agent one_connected ''agent_1'' =
     Some (init_interface\<lparr>registered_agents := [(''agent_1'', descriptor ''agent_1'')],
                           agent_states := [(''agent_1'', AGENT_DISCONNECTED)]\<rparr>, ()) \<and>
   timedelta_seconds (86405000000 - 0) = 5 \<and>
   janitor_pass one_connected 86405000000 = Some one_connected \<and>
   map_of (active_connections one_connected) ''agent_1'' = Some () \<and>
   map_of (agent_states one_connected) ''agent_1'' = Some AGENT_ACTIVE"
proof -
  have a: "register_agent (init_interface :: unit AgentInterface) (descriptor ''agent_1'') 0 =
     Some (init_interface\<lparr>registered_agents := [(''agent_1'', descriptor ''agent_1'')],
                           agent_states := [(''agent_1'', AGENT_INITIALIZING)]\<rparr>,
           [(''success'', PBool True), (''agent_id'', PStr ''agent_1''), (''timestamp'', PTime 0)])"
    by (simp add: register_agent_def with_lock_def init_interface_def descriptor_def
        MAX_CONNECTIONS_def dict_has_def)
  have b: "connect_agent
     ((init_interface :: unit AgentInterface)
        \<lparr>registered_agents := [(''agent_1'', descriptor ''agent_1'')],
         agent_states := [(''agent_1'', AGENT_INITIALIZING)]\<rparr>) ''agent_1'' 0 ''0.0'' =
     Some (one_connected,
           [(''success'', PBool True), (''connection'', PNone),
            (''session_id'', PStr ''session_agent_1_0.0'')])"
    by (simp add: connect_agent_def with_lock_def init_interface_def one_connected_def dict_has_def)
  have c: "timedelta_seconds (31000000 - 0) = 31" "timedelta_seconds (86405000000 - 0) = 5"
    by (simp_all add: timedelta_seconds_def)
  have d: "janitor_pass one_connected 31000000 = None"
    by (simp add: janitor_pass_def cleanup_inactive_connections_def with_lock_def
        one_connected_def init_interface_def disconnect_agent_blocks timedelta_seconds_def
        CONNECTION_TIMEOUT_def)
  have e: "disconnect_agent one_connected ''agent_1'' =
     Some (init_interface\<lparr>registered_agents := [(''agent_1'', descriptor ''agent_1'')],
                           agent_states := [(''agent_1'', AGENT_DISCONNECTED)]\<rparr>, ())"
    by (simp add: disconnect_agent_def with_lock_def one_connected_def init_interface_def
        dict_del_def dict_has_def)
  have f: "janitor_pass one_connected 86405000000 = Some one_connected"
    by (simp add: janitor_pass_def cleanup_inactive_connections_def cleanup_old_events_def
        with_lock_def one_connected_def init_interface_def timedelta_seconds_def
        CONNECTION_TIMEOUT_def dict_keys_def)
  have g: "map_of (active_connections one_connected) ''agent_1'' = Some ()"
    "map_of (agent_states one_connected) ''agent_1'' = Some AGENT_ACTIVE"
    by (simp_all add: one_connected_def)
  from a b c d e f g show ?thesis by simp
qed

end
